theory Spec2Isabelle
  imports Complex_Main "HOL-Library.Char_ord" "HOL-Library.List_Lexorder"
begin

section \<open>Movilidad CR: a shallow embedding of \<^verbatim>\<open>proyecto/app.py\<close>\<close>

text \<open>
  The script is a Streamlit page executed top to bottom. The embedding follows it stage by
  stage: the route fetcher \<^verbatim>\<open>obtener_ruta_osrm\<close>, the table operations written
  with pandas, the page itself as a function that returns the trace of what it rendered
  together with the way it ended, and the animation loop.

  Conventions used throughout.
  \<^item> Numbers are \<open>real\<close>. Python computes with IEEE doubles (and unbounded integers inside
    JSON); rounding, infinities and NaN are not represented, and a quotient is the exact
    quotient. The one overflow that raises, in the division of line 66, is represented.
  \<^item> A Python exception is a value of type \<open>excepcion\<close>, and a computation that may raise
    has a result of type \<open>excepcion + 'a\<close>, with \<open>Inl\<close> for the raised exception.
  \<^item> A string is a \<open>string\<close>; one \<open>char\<close> stands for one character of the Python
    string.
\<close>

subsection \<open>Python values decoded from JSON\<close>

text \<open>
  \<^verbatim>\<open>r.json()\<close> yields dictionaries, lists, strings, numbers, booleans and \<^verbatim>\<open>None\<close>.
  A dictionary is kept as an association list read with \<open>map_of\<close>.
\<close>

datatype json =
    JNull
  | JBool bool
  | JNum real
  | JStr string
  | JArr "json list"
  | JObj "(string \<times> json) list"

datatype excepcion =
  KeyError | IndexError | TypeError | ValueError | JSONDecodeError
  | ZeroDivisionError | OverflowError

text \<open>\<^verbatim>\<open>x[k]\<close> with a string key \<open>k\<close>: only a dictionary accepts it.\<close>

fun getitem_str :: "json \<Rightarrow> string \<Rightarrow> excepcion + json" where
  "getitem_str (JObj kvs) k = (case map_of kvs k of None \<Rightarrow> Inl KeyError | Some v \<Rightarrow> Inr v)"
| "getitem_str _ k = Inl TypeError"

text \<open>
  \<^verbatim>\<open>x[i]\<close> with a non-negative integer \<open>i\<close>: a list gives its element, a string gives
  the one-character string, a decoded dictionary has only string keys, everything else is
  not subscriptable.
\<close>

fun getitem_int :: "json \<Rightarrow> nat \<Rightarrow> excepcion + json" where
  "getitem_int (JArr xs) i = (if i < length xs then Inr (xs ! i) else Inl IndexError)"
| "getitem_int (JStr s) i = (if i < length s then Inr (JStr [s ! i]) else Inl IndexError)"
| "getitem_int (JObj kvs) i = Inl KeyError"
| "getitem_int _ i = Inl TypeError"

text \<open>
  A quotient that does not fit a double. The largest double is \<open>2 ^ 1024 - 2 ^ 971\<close>, and
  Python rounds the quotient of two integers to the nearest double: it fits exactly when its
  magnitude is below \<open>2 ^ 1024 - 2 ^ 970\<close>, half a step above the largest double. A decoded
  number is an integer or a finite double, and the quotient of a finite double by 60 always
  fits.
\<close>

definition desborda :: "real \<Rightarrow> bool" where
  "desborda q = (\<bar>q\<bar> \<ge> 2 ^ 1024 - 2 ^ 970)"

text \<open>
  The division of two numbers: \<^verbatim>\<open>ZeroDivisionError\<close> on a zero divisor,
  \<^verbatim>\<open>OverflowError\<close> when the quotient does not fit a double.
\<close>

definition dividir :: "real \<Rightarrow> real \<Rightarrow> excepcion + real" where
  "dividir x d =
     (if d = 0 then Inl ZeroDivisionError
      else if desborda (x / d) then Inl OverflowError
      else Inr (x / d))"

text \<open>\<^verbatim>\<open>x / 60\<close>: defined on numbers, and on booleans, which Python counts as 0 and 1.\<close>

fun truediv :: "json \<Rightarrow> real \<Rightarrow> excepcion + real" where
  "truediv (JNum x) d = dividir x d"
| "truediv (JBool b) d = dividir (if b then 1 else 0) d"
| "truediv _ d = Inl TypeError"

text \<open>
  \<^verbatim>\<open>for c in x\<close>: a list yields its elements, a string its characters, a dictionary its
  keys; anything else is not iterable.
\<close>

fun iter :: "json \<Rightarrow> excepcion + json list" where
  "iter (JArr xs) = Inr xs"
| "iter (JStr s) = Inr (map (\<lambda>c. JStr [c]) s)"
| "iter (JObj kvs) = Inr (map (\<lambda>kv. JStr (fst kv)) kvs)"
| "iter _ = Inl TypeError"

subsection \<open>The route fetcher\<close>

text \<open>
  What \<^verbatim>\<open>requests.get\<close> returned: the status code and the decoded body, \<open>None\<close> when
  \<^verbatim>\<open>r.json()\<close> raises on it.
\<close>

record respuesta =
  status_code :: int
  cuerpo :: "json option"

text \<open>
  The request is identified by the four numbers the URL is formatted from, in the order
  they appear in it: \<open>(lon1, lat1, lon2, lat2)\<close>.
\<close>

type_synonym url = "real \<times> real \<times> real \<times> real"

text \<open>One row of the data frame built from the route: the columns \<open>lat\<close> and \<open>lon\<close>.\<close>

record punto =
  lat :: json
  lon :: json

text \<open>
  The body of the \<^verbatim>\<open>try\<close> block (lines 60 to 66): decode, read the coordinate list of
  the first route, read its duration and divide it by 60.
\<close>

definition extraer :: "respuesta \<Rightarrow> excepcion + (json \<times> real)" where
  "extraer r =
     (case cuerpo r of
        None \<Rightarrow> Inl JSONDecodeError
      | Some data \<Rightarrow>
          (case getitem_str data ''routes'' of Inl e \<Rightarrow> Inl e | Inr routes \<Rightarrow>
          (case getitem_int routes 0 of Inl e \<Rightarrow> Inl e | Inr r0 \<Rightarrow>
          (case getitem_str r0 ''geometry'' of Inl e \<Rightarrow> Inl e | Inr geometry \<Rightarrow>
          (case getitem_str geometry ''coordinates'' of Inl e \<Rightarrow> Inl e | Inr coords \<Rightarrow>
          (case getitem_str r0 ''duration'' of Inl e \<Rightarrow> Inl e | Inr dur \<Rightarrow>
          (case truediv dur 60 of Inl e \<Rightarrow> Inl e | Inr duracion \<Rightarrow>
             Inr (coords, duracion))))))))"

text \<open>
  One element of the comprehension on line 72, \<^verbatim>\<open>{"lat": c[1], "lon": c[0]}\<close>:
  \<^verbatim>\<open>c[1]\<close> is evaluated first.
\<close>

definition punto_de :: "json \<Rightarrow> excepcion + punto" where
  "punto_de c =
     (case getitem_int c 1 of Inl e \<Rightarrow> Inl e | Inr la \<Rightarrow>
     (case getitem_int c 0 of Inl e \<Rightarrow> Inl e | Inr lo \<Rightarrow>
        Inr \<lparr>lat = la, lon = lo\<rparr>))"

text \<open>The comprehension over the elements: the first element that raises ends it.\<close>

fun puntos_de :: "json list \<Rightarrow> excepcion + punto list" where
  "puntos_de [] = Inr []"
| "puntos_de (c # cs) =
     (case punto_de c of Inl e \<Rightarrow> Inl e | Inr p \<Rightarrow>
     (case puntos_de cs of Inl e \<Rightarrow> Inl e | Inr ps \<Rightarrow> Inr (p # ps)))"

text \<open>
  \<^verbatim>\<open>obtener_ruta_osrm\<close> (lines 38 to 74). The first argument stands for
  \<^verbatim>\<open>requests.get\<close>. The result is the pair the function returns, the data frame as the
  list of its rows and the duration with \<open>None\<close> for Python's \<^verbatim>\<open>None\<close>; the empty data
  frame \<^verbatim>\<open>pd.DataFrame()\<close> is the empty list. Line 72 is outside the \<^verbatim>\<open>try\<close> block, so
  what it raises leaves the function. A request that gets no response at all is not
  represented.
\<close>

definition obtener_ruta_osrm ::
    "(url \<Rightarrow> respuesta) \<Rightarrow> real \<Rightarrow> real \<Rightarrow> real \<Rightarrow> real \<Rightarrow> excepcion + (punto list \<times> real option)" where
  "obtener_ruta_osrm get lat1 lon1 lat2 lon2 =
     (let r = get (lon1, lat1, lon2, lat2) in
      if status_code r \<noteq> 200 then Inr ([], None)
      else
        (case extraer r of
           Inl e \<Rightarrow> Inr ([], None)
         | Inr (coords, duracion) \<Rightarrow>
             (case iter coords of Inl e \<Rightarrow> Inl e | Inr cs \<Rightarrow>
             (case puntos_de cs of Inl e \<Rightarrow> Inl e | Inr ruta \<Rightarrow>
                Inr (ruta, Some duracion)))))"

subsection \<open>The route table\<close>

text \<open>
  One row of the spreadsheet \<^verbatim>\<open>datos/rutas_cr.xlsx\<close>, with the columns the script
  reads, and the row after line 33 has added the column \<^verbatim>\<open>eficiencia\<close>. Labels are
  strings and measures are finite numbers; blank cells are not represented.
\<close>

record registro =
  inicio :: string
  fin :: string
  ruta :: string
  lat_inicio :: real
  lon_inicio :: real
  lat_fin :: real
  lon_fin :: real
  distancia_km :: real
  pasajeros_prom :: real
  frecuencia_hora :: real

record registro_ef = registro +
  eficiencia :: real

text \<open>
  A pandas data frame is the list of its rows, each with its index label; a series is the
  list of its values, each with its index label.
\<close>

type_synonym 'r dataframe = "(nat \<times> 'r) list"
type_synonym 'a serie = "(nat \<times> 'a) list"

text \<open>
  \<^verbatim>\<open>load_data\<close> (lines 20 to 27): \<^verbatim>\<open>pd.read_excel\<close> labels the rows it read
  \<open>0, 1, 2, \<dots>\<close>. The argument stands for the rows of the file.
\<close>

definition load_data :: "registro list \<Rightarrow> registro dataframe" where
  "load_data excel = zip [0..<length excel] excel"

text \<open>\<^verbatim>\<open>df[name]\<close>: one column, as a series with the frame's labels.\<close>

definition columna :: "('r \<Rightarrow> 'a) \<Rightarrow> 'r dataframe \<Rightarrow> 'a serie" where
  "columna f df = map (\<lambda>(i, r). (i, f r)) df"

text \<open>
  \<^verbatim>\<open>a / b\<close> on two columns of one frame: they carry the same labels in the same order,
  so the alignment pandas performs pairs them position by position. Where the divisor is
  0 pandas yields an infinity or NaN, which \<open>real\<close> does not have (HOL gives 0 there);
  the model is faithful on rows with a nonzero divisor only.
\<close>

definition serie_div :: "real serie \<Rightarrow> real serie \<Rightarrow> real serie" where
  "serie_div a b = map (\<lambda>((i, x), (j, y)). (i, x / y)) (zip a b)"

text \<open>\<^verbatim>\<open>df["eficiencia"] = s\<close> for a series \<open>s\<close> with the frame's labels.\<close>

definition asignar_eficiencia :: "registro dataframe \<Rightarrow> real serie \<Rightarrow> registro_ef dataframe" where
  "asignar_eficiencia df s =
     map (\<lambda>((i, r), (j, e)). (i, registro.extend r (registro_ef.fields e))) (zip df s)"

text \<open>The global \<^verbatim>\<open>df\<close> after lines 30 and 33.\<close>

definition df_principal :: "registro list \<Rightarrow> registro_ef dataframe" where
  "df_principal excel =
     (let df = load_data excel
      in asignar_eficiencia df (serie_div (columna pasajeros_prom df) (columna distancia_km df)))"

text \<open>
  Boolean masks: \<^verbatim>\<open>s == v\<close>, \<^verbatim>\<open>a & b\<close> and the selection \<^verbatim>\<open>df[mask]\<close>, which keeps
  the rows whose mask entry is true, with their labels.
\<close>

definition serie_eq :: "'a serie \<Rightarrow> 'a \<Rightarrow> bool serie" where
  "serie_eq s v = map (\<lambda>(i, x). (i, x = v)) s"

definition serie_and :: "bool serie \<Rightarrow> bool serie \<Rightarrow> bool serie" where
  "serie_and a b = map (\<lambda>((i, p), (j, q)). (i, p \<and> q)) (zip a b)"

definition seleccionar :: "'r dataframe \<Rightarrow> bool serie \<Rightarrow> 'r dataframe" where
  "seleccionar df m = map fst (filter (\<lambda>(ir, jb). snd jb) (zip df m))"

text \<open>Line 102.\<close>

definition rutas_od :: "registro_ef dataframe \<Rightarrow> string \<Rightarrow> string \<Rightarrow> registro_ef dataframe" where
  "rutas_od df origen destino =
     seleccionar df (serie_and (serie_eq (columna inicio df) origen)
                               (serie_eq (columna fin df) destino))"

text \<open>\<^verbatim>\<open>s.unique()\<close>: the distinct values in the order of their first appearance.\<close>

fun unique_desde :: "'a list \<Rightarrow> 'a list \<Rightarrow> 'a list" where
  "unique_desde vistos [] = []"
| "unique_desde vistos (x # xs) =
     (if x \<in> set vistos then unique_desde vistos xs else x # unique_desde (x # vistos) xs)"

definition unique :: "'a serie \<Rightarrow> 'a list" where
  "unique s = unique_desde [] (map snd s)"

text \<open>\<^verbatim>\<open>df.iloc[0]\<close>: the first row, \<^verbatim>\<open>IndexError\<close> on an empty frame.\<close>

definition iloc0 :: "'r dataframe \<Rightarrow> excepcion + 'r" where
  "iloc0 df = (case df of [] \<Rightarrow> Inl IndexError | ir # _ \<Rightarrow> Inr (snd ir))"

text \<open>Lines 110 to 117, without the widget: the row the page works with.\<close>

definition fila :: "registro_ef dataframe \<Rightarrow> string \<Rightarrow> excepcion + registro_ef" where
  "fila od ruta_seleccionada =
     (if length od > 1
      then iloc0 (seleccionar od (serie_eq (columna ruta od) ruta_seleccionada))
      else iloc0 od)"

text \<open>
  \<^verbatim>\<open>s.idxmin()\<close> and \<^verbatim>\<open>s.idxmax()\<close>: the label of the first occurrence of the
  extreme value, \<^verbatim>\<open>ValueError\<close> on an empty series.
\<close>

fun idxmin :: "real serie \<Rightarrow> excepcion + nat" where
  "idxmin [] = Inl ValueError"
| "idxmin (ix # s) = Inr (fst (foldl (\<lambda>m jy. if snd jy < snd m then jy else m) ix s))"

fun idxmax :: "real serie \<Rightarrow> excepcion + nat" where
  "idxmax [] = Inl ValueError"
| "idxmax (ix # s) = Inr (fst (foldl (\<lambda>m jy. if snd jy > snd m then jy else m) ix s))"

text \<open>\<^verbatim>\<open>df.loc[i]\<close> on a frame whose labels are distinct: the row labelled \<open>i\<close>.\<close>

definition loc :: "'r dataframe \<Rightarrow> nat \<Rightarrow> excepcion + 'r" where
  "loc df i = (case map_of df i of None \<Rightarrow> Inl KeyError | Some r \<Rightarrow> Inr r)"

text \<open>Lines 141, 144 and 147.\<close>

definition ruta_corta :: "registro_ef dataframe \<Rightarrow> excepcion + registro_ef" where
  "ruta_corta od = (case idxmin (columna distancia_km od) of Inl e \<Rightarrow> Inl e | Inr i \<Rightarrow> loc od i)"

definition ruta_freq :: "registro_ef dataframe \<Rightarrow> excepcion + registro_ef" where
  "ruta_freq od = (case idxmax (columna frecuencia_hora od) of Inl e \<Rightarrow> Inl e | Inr i \<Rightarrow> loc od i)"

definition ruta_eff :: "registro_ef dataframe \<Rightarrow> excepcion + registro_ef" where
  "ruta_eff od = (case idxmax (columna eficiencia od) of Inl e \<Rightarrow> Inl e | Inr i \<Rightarrow> loc od i)"

text \<open>
  \<^verbatim>\<open>s.quantile(q)\<close> with pandas' default linear interpolation: on the sorted values
  \<open>a\<close> of length \<open>n\<close> the position is \<open>h = q * (n - 1)\<close>, and the result lies between
  \<open>a ! \<lfloor>h\<rfloor>\<close> and its successor in proportion to the fractional part of \<open>h\<close>. On an
  empty series the result is NaN, here \<open>None\<close>.
\<close>

definition quantile :: "real serie \<Rightarrow> real \<Rightarrow> real option" where
  "quantile s q =
     (let a = sort (map snd s); n = length a
      in if n = 0 then None
         else
           (let h = q * real (n - 1); lo = nat \<lfloor>h\<rfloor>; hi = min (lo + 1) (n - 1)
            in Some (a ! lo + (h - real lo) * (a ! hi - a ! lo))))"

text \<open>\<^verbatim>\<open>value > x\<close> where \<open>x\<close> may be NaN: a comparison with NaN is false.\<close>

fun mayor_que :: "real \<Rightarrow> real option \<Rightarrow> bool" where
  "mayor_que v None = False"
| "mayor_que v (Some x) = (v > x)"

text \<open>\<^verbatim>\<open>eficiencia_color\<close> (lines 207 to 213); the global \<^verbatim>\<open>df\<close> is its first argument.\<close>

definition eficiencia_color :: "registro_ef dataframe \<Rightarrow> real \<Rightarrow> string" where
  "eficiencia_color df v =
     (if mayor_que v (quantile (columna eficiencia df) 0.66) then ''green''
      else if mayor_que v (quantile (columna eficiencia df) 0.33) then ''orange''
      else ''red'')"

subsection \<open>What the page renders\<close>

text \<open>
  One frame of the animation, the \<^verbatim>\<open>pdk.Deck\<close> of lines 237 to 261: the rows given to
  the icon layer, the path given to the path layer as \<open>(lon, lat)\<close> pairs, and the view
  state. The column \<^verbatim>\<open>icon\<close> that \<^verbatim>\<open>assign\<close> adds to the rows of the icon layer is
  not represented.
\<close>

record cuadro =
  capa_icono :: "punto list"
  capa_camino :: "(json \<times> json) list"
  latitude :: json
  longitude :: json
  zoom :: nat
  pitch :: nat

text \<open>One line of the general map, the \<^verbatim>\<open>folium.PolyLine\<close> of lines 217 to 222.\<close>

record polilinea =
  locations :: "(real \<times> real) list"
  color :: string
  weight :: nat
  tooltip :: string

text \<open>
  The effects of the script, in the order they happen. Texts are given without the emoji
  and the accents of the source; a number that the source formats into a text is kept as
  the number.
\<close>

datatype evento =
    St_title string
  | St_markdown string
  | St_sidebar_header string
  | St_sidebar_selectbox string "string list"
  | St_error string
  | Requests_get url
  | St_header string
  | St_metric string string real
  | St_metric_duracion real
  | St_dataframe "registro_ef dataframe"
  | St_bar_chart "(string \<times> real) list"
  | St_empty
  | St_caption string
  | Folium_static "polilinea list"
  | Pydeck_chart cuadro

text \<open>
  How a run of the script ends: it reaches the last line, it calls \<^verbatim>\<open>st.stop()\<close>, or an
  exception leaves it.
\<close>

datatype final = Completa | Detenida | Excepcion excepcion

text \<open>Lines 89 to 99.\<close>

definition encabezado :: "registro_ef dataframe \<Rightarrow> evento list" where
  "encabezado df =
     [St_title '' Dashboard de Movilidad CR'',
      St_markdown ''Use el panel izquierdo para elegir **origen** y **destino**.'',
      St_sidebar_header ''Seleccion de Origen y Destino'',
      St_sidebar_selectbox ''Seleccione el origen:'' (sort (unique (columna inicio df))),
      St_sidebar_selectbox ''Seleccione el destino:'' (sort (unique (columna fin df)))]"

text \<open>
  Lines 135 to 151. The second component is the exception that ended the stage, if any;
  what was rendered before it stays rendered. Formatting \<^verbatim>\<open>None\<close> with \<^verbatim>\<open>:.1f\<close> is a
  \<^verbatim>\<open>TypeError\<close>.
\<close>

definition indicadores :: "registro_ef dataframe \<Rightarrow> real option \<Rightarrow> evento list \<times> excepcion option" where
  "indicadores od duracion_min =
     (let ev = [St_header ''Indicadores''] in
      case ruta_corta od of Inl e \<Rightarrow> (ev, Some e) | Inr rc \<Rightarrow>
     (let ev = ev @ [St_metric ''Ruta mas corta'' (ruta rc) (distancia_km rc)] in
      case ruta_freq od of Inl e \<Rightarrow> (ev, Some e) | Inr rf \<Rightarrow>
     (let ev = ev @ [St_metric ''Mas frecuente'' (ruta rf) (frecuencia_hora rf)] in
      case ruta_eff od of Inl e \<Rightarrow> (ev, Some e) | Inr re \<Rightarrow>
     (let ev = ev @ [St_metric ''Mas eficiente'' (ruta re) (eficiencia re)] in
      case duracion_min of None \<Rightarrow> (ev, Some TypeError) | Some d \<Rightarrow>
        (ev @ [St_metric_duracion d], None)))))"

text \<open>
  \<^verbatim>\<open>df.groupby("ruta")["pasajeros_prom"].sum()\<close>: one entry per route name, in sorted
  order, with the sum over the rows of that name.
\<close>

definition demanda :: "registro_ef dataframe \<Rightarrow> (string \<times> real) list" where
  "demanda df =
     map (\<lambda>k. (k, sum_list (map (\<lambda>(i, r). pasajeros_prom r) (filter (\<lambda>(i, r). ruta r = k) df))))
         (sort (remdups (map (\<lambda>(i, r). ruta r) df)))"

text \<open>Lines 156 to 163.\<close>

definition tabla_y_grafico ::
    "registro_ef dataframe \<Rightarrow> registro_ef dataframe \<Rightarrow> string \<Rightarrow> string \<Rightarrow> evento list" where
  "tabla_y_grafico df od origen destino =
     [St_header (''Rutas disponibles entre '' @ origen @ '' -> '' @ destino),
      St_dataframe od,
      St_header ''Demanda total por ruta '',
      St_bar_chart (demanda df)]"

text \<open>
  \<^verbatim>\<open>construir_gdf_rutas\<close> (lines 186 to 199): every row with the segment from its start to
  its end, as \<open>(lon, lat)\<close> pairs.
\<close>

definition construir_gdf_rutas ::
    "registro_ef dataframe \<Rightarrow> (registro_ef \<times> (real \<times> real) list) dataframe" where
  "construir_gdf_rutas df =
     map (\<lambda>(i, r). (i, (r, [(lon_inicio r, lat_inicio r), (lon_fin r, lat_fin r)]))) df"

text \<open>Lines 216 to 222: one line per row of the whole table.\<close>

definition polilineas :: "registro_ef dataframe \<Rightarrow> polilinea list" where
  "polilineas df =
     map (\<lambda>(i, (r, g)).
            \<lparr>locations = [(lat_inicio r, lon_inicio r), (lat_fin r, lon_fin r)],
             color = eficiencia_color df (eficiencia r),
             weight = 4,
             tooltip = ruta r\<rparr>)
         (construir_gdf_rutas df)"

text \<open>Lines 168 to 224.\<close>

definition mapas :: "registro_ef dataframe \<Rightarrow> evento list" where
  "mapas df =
     [St_header ''Simulacion del Recorrido Real (OSRM)'',
      St_empty,
      St_header ''Mapa general'',
      St_caption ''Vista rapida del sistema completo'',
      Folium_static (polilineas df)]"

subsection \<open>The animation loop\<close>

text \<open>
  The body of the loop for one value of \<open>i\<close> (lines 234 to 261). The slice
  \<^verbatim>\<open>iloc[i:i+1]\<close> is \<open>take 1 (drop i _)\<close> and \<^verbatim>\<open>iloc[:i+1]\<close> is \<open>take (i + 1) _\<close>;
  slices never raise, \<^verbatim>\<open>punto["lat"].iloc[0]\<close> raises on an empty slice.
\<close>

definition cuadro_de :: "punto list \<Rightarrow> nat \<Rightarrow> excepcion + cuadro" where
  "cuadro_de ruta_real i =
     (let punto = take 1 (drop i ruta_real);
          camino = take (i + 1) ruta_real
      in case punto of
           [] \<Rightarrow> Inl IndexError
         | p # _ \<Rightarrow>
             Inr \<lparr>capa_icono = punto,
                  capa_camino = map (\<lambda>r. (lon r, lat r)) camino,
                  latitude = lat p, longitude = lon p, zoom = 14, pitch = 50\<rparr>)"

text \<open>
  \<^verbatim>\<open>for i in range(len(ruta_real))\<close>, from the value \<open>i\<close> on: the frames drawn, in
  order, and the exception that ended the loop, if any. The pause between two frames is
  not represented.
\<close>

function bucle :: "punto list \<Rightarrow> nat \<Rightarrow> cuadro list \<times> excepcion option" where
  "bucle ruta_real i =
     (if i < length ruta_real
      then (case cuadro_de ruta_real i of
              Inl e \<Rightarrow> ([], Some e)
            | Inr c \<Rightarrow> (case bucle ruta_real (i + 1) of (cs, e) \<Rightarrow> (c # cs, e)))
      else ([], None))"
  by pat_completeness auto
termination
  by (relation "measure (\<lambda>(r, i). length r - i)") auto

declare bucle.simps [simp del]

subsection \<open>The page\<close>

text \<open>
  One execution of the script from line 89 on. The arguments are the rows of the
  spreadsheet, the values the three selection widgets return, and \<^verbatim>\<open>requests.get\<close>. The
  result is the trace of effects and the way the run ended.
\<close>

definition pagina ::
    "registro list \<Rightarrow> string \<Rightarrow> string \<Rightarrow> string \<Rightarrow> (url \<Rightarrow> respuesta) \<Rightarrow> evento list \<times> final" where
  "pagina excel origen destino ruta_seleccionada get =
     (let df = df_principal excel;
          ev = encabezado df;
          od = rutas_od df origen destino
      in if od = [] then (ev @ [St_error ''No existen rutas entre este origen y destino.''], Detenida)
         else
          (let ev = ev @ (if length od > 1
                          then [St_sidebar_selectbox ''Varias rutas disponibles:'' (unique (columna ruta od))]
                          else [])
           in case fila od ruta_seleccionada of
                Inl e \<Rightarrow> (ev, Excepcion e)
              | Inr f \<Rightarrow>
                 (let ev = ev @ [Requests_get (lon_inicio f, lat_inicio f, lon_fin f, lat_fin f)]
                  in case obtener_ruta_osrm get (lat_inicio f) (lon_inicio f) (lat_fin f) (lon_fin f) of
                       Inl e \<Rightarrow> (ev, Excepcion e)
                     | Inr (ruta_real, duracion_min) \<Rightarrow>
                        if ruta_real = []
                        then (ev @ [St_error ''Error al obtener ruta desde OSRM.''], Detenida)
                        else
                         (case indicadores od duracion_min of
                            (ev_i, Some e) \<Rightarrow> (ev @ ev_i, Excepcion e)
                          | (ev_i, None) \<Rightarrow>
                             (let ev = ev @ ev_i @ tabla_y_grafico df od origen destino @ mapas df
                              in case bucle ruta_real 0 of
                                   (cs, Some e) \<Rightarrow> (ev @ map Pydeck_chart cs, Excepcion e)
                                 | (cs, None) \<Rightarrow> (ev @ map Pydeck_chart cs, Completa))))))"

section \<open>Properties\<close>

subsection \<open>The route fetcher\<close>

lemma puntos_de_pares:
  "puntos_de (map (\<lambda>p. JArr [fst p, snd p]) pts)
     = Inr (map (\<lambda>p. \<lparr>lat = snd p, lon = fst p\<rparr>) pts)"
  by (induction pts) (simp_all add: punto_de_def)

text \<open>
  Claim C1, as amended. When the status is 200 and the body has the expected shape, a
  dictionary whose \<^verbatim>\<open>routes\<close> is a list that starts with a dictionary holding
  \<^verbatim>\<open>geometry.coordinates\<close>, a list of \<open>[lon, lat]\<close> pairs, and a numeric
  \<^verbatim>\<open>duration\<close> whose quotient by 60 fits a double, the fetcher returns the points of
  that first route in the same order, each as \<open>(lat, lon)\<close>, together with the duration
  divided by 60.
\<close>

theorem obtener_ruta_osrm_exito:
  assumes "status_code (get (lon1, lat1, lon2, lat2)) = 200"
    and "cuerpo (get (lon1, lat1, lon2, lat2)) = Some (JObj data)"
    and "map_of data ''routes'' = Some (JArr (JObj r0 # otras))"
    and "map_of r0 ''geometry'' = Some (JObj geometry)"
    and "map_of geometry ''coordinates'' = Some (JArr (map (\<lambda>p. JArr [fst p, snd p]) pts))"
    and "map_of r0 ''duration'' = Some (JNum segundos)"
    and "\<not> desborda (segundos / 60)"
  shows "obtener_ruta_osrm get lat1 lon1 lat2 lon2 =
           Inr (map (\<lambda>p. \<lparr>lat = snd p, lon = fst p\<rparr>) pts, Some (segundos / 60))"
  using assms by (simp add: obtener_ruta_osrm_def extraer_def dividir_def puntos_de_pares)

text \<open>The response of the specification's example: two points and 600 seconds.\<close>

theorem obtener_ruta_osrm_exito_witness:
  "obtener_ruta_osrm
     (\<lambda>u. \<lparr>status_code = 200,
            cuerpo = Some (JObj [(''routes'', JArr [JObj
              [(''geometry'', JObj [(''coordinates'',
                  JArr [JArr [JNum 10, JNum 20], JArr [JNum 11, JNum 21]])]),
               (''duration'', JNum 600)]])])\<rparr>) 9.93 (-84.08) 10.01 (-84.21)
   = Inr ([\<lparr>lat = JNum 20, lon = JNum 10\<rparr>, \<lparr>lat = JNum 21, lon = JNum 11\<rparr>], Some 10)"
  using obtener_ruta_osrm_exito
    [of "\<lambda>u. \<lparr>status_code = 200,
            cuerpo = Some (JObj [(''routes'', JArr [JObj
              [(''geometry'', JObj [(''coordinates'',
                  JArr [JArr [JNum 10, JNum 20], JArr [JNum 11, JNum 21]])]),
               (''duration'', JNum 600)]])])\<rparr>" "-84.08" "9.93" "-84.21" "10.01"
        "[(''routes'', JArr [JObj
              [(''geometry'', JObj [(''coordinates'',
                  JArr [JArr [JNum 10, JNum 20], JArr [JNum 11, JNum 21]])]),
               (''duration'', JNum 600)]])]"
        "[(''geometry'', JObj [(''coordinates'',
                  JArr [JArr [JNum 10, JNum 20], JArr [JNum 11, JNum 21]])]),
               (''duration'', JNum 600)]" "[]"
        "[(''coordinates'', JArr [JArr [JNum 10, JNum 20], JArr [JNum 11, JNum 21]])]"
        "[(JNum 10, JNum 20), (JNum 11, JNum 21)]" 600]
  by (simp add: desborda_def)

text \<open>
  Without the bound the statement fails. With the same two points and a duration of
  \<open>10 ^ 400\<close> seconds, an integer, the division of line 66 raises \<^verbatim>\<open>OverflowError\<close>
  inside the \<^verbatim>\<open>try\<close> block and the fetcher returns the failure result, not the path.
\<close>

theorem obtener_ruta_osrm_exito_counterexample:
  "obtener_ruta_osrm
     (\<lambda>u. \<lparr>status_code = 200,
            cuerpo = Some (JObj [(''routes'', JArr [JObj
              [(''geometry'', JObj [(''coordinates'',
                  JArr [JArr [JNum 10, JNum 20], JArr [JNum 11, JNum 21]])]),
               (''duration'', JNum (10 ^ 400))]])])\<rparr>) 9.93 (-84.08) 10.01 (-84.21)
     = Inr ([], None)
   \<and> obtener_ruta_osrm
     (\<lambda>u. \<lparr>status_code = 200,
            cuerpo = Some (JObj [(''routes'', JArr [JObj
              [(''geometry'', JObj [(''coordinates'',
                  JArr [JArr [JNum 10, JNum 20], JArr [JNum 11, JNum 21]])]),
               (''duration'', JNum (10 ^ 400))]])])\<rparr>) 9.93 (-84.08) 10.01 (-84.21)
     \<noteq> Inr ([\<lparr>lat = JNum 20, lon = JNum 10\<rparr>, \<lparr>lat = JNum 21, lon = JNum 11\<rparr>],
            Some (10 ^ 400 / 60))"
  by (simp add: obtener_ruta_osrm_def extraer_def dividir_def desborda_def)

text \<open>
  Claim C2. When the status is not 200, or the body cannot be decoded, or one of the
  subscripts \<^verbatim>\<open>["routes"]\<close>, \<^verbatim>\<open>[0]\<close>, \<^verbatim>\<open>["geometry"]\<close>, \<^verbatim>\<open>["coordinates"]\<close>,
  \<^verbatim>\<open>["duration"]\<close> finds nothing, the fetcher returns the empty frame with no duration;
  it does not raise.
\<close>

theorem obtener_ruta_osrm_fallo:
  assumes "status_code (get (lon1, lat1, lon2, lat2)) \<noteq> 200
     \<or> cuerpo (get (lon1, lat1, lon2, lat2)) = None
     \<or> (\<exists>data e. cuerpo (get (lon1, lat1, lon2, lat2)) = Some data \<and>
          (getitem_str data ''routes'' = Inl e
           \<or> (\<exists>routes. getitem_str data ''routes'' = Inr routes \<and>
                (getitem_int routes 0 = Inl e
                 \<or> (\<exists>r0. getitem_int routes 0 = Inr r0 \<and>
                      (getitem_str r0 ''duration'' = Inl e
                       \<or> getitem_str r0 ''geometry'' = Inl e
                       \<or> (\<exists>geometry. getitem_str r0 ''geometry'' = Inr geometry \<and>
                            getitem_str geometry ''coordinates'' = Inl e)))))))"
  shows "obtener_ruta_osrm get lat1 lon1 lat2 lon2 = Inr ([], None)"
  using assms
  by (auto simp add: obtener_ruta_osrm_def extraer_def Let_def split: sum.splits option.splits)

theorem obtener_ruta_osrm_fallo_witness:
  "obtener_ruta_osrm (\<lambda>u. \<lparr>status_code = 200, cuerpo = Some (JObj [(''code'', JStr ''Ok'')])\<rparr>)
      9.93 (-84.08) 10.01 (-84.21) = Inr ([], None)
 \<and> obtener_ruta_osrm (\<lambda>u. \<lparr>status_code = 404, cuerpo = None\<rparr>)
      9.93 (-84.08) 10.01 (-84.21) = Inr ([], None)"
  using obtener_ruta_osrm_fallo
          [of "\<lambda>u. \<lparr>status_code = 200, cuerpo = Some (JObj [(''code'', JStr ''Ok'')])\<rparr>"
              "-84.08" "9.93" "-84.21" "10.01"]
        obtener_ruta_osrm_fallo
          [of "\<lambda>u. \<lparr>status_code = 404, cuerpo = None\<rparr>" "-84.08" "9.93" "-84.21" "10.01"]
  by simp

text \<open>
  The five subscripts are all inside the \<^verbatim>\<open>try\<close> block. The comprehension of line 72
  is not: with every key present and a point that has one element only, \<^verbatim>\<open>c[1]\<close>
  raises and the exception leaves the function.
\<close>

lemma obtener_ruta_osrm_punto_incompleto:
  "obtener_ruta_osrm
     (\<lambda>u. \<lparr>status_code = 200,
            cuerpo = Some (JObj [(''routes'', JArr [JObj
              [(''geometry'', JObj [(''coordinates'', JArr [JArr [JNum 10]])]),
               (''duration'', JNum 600)]])])\<rparr>) 9.93 (-84.08) 10.01 (-84.21)
   = Inl IndexError"
  by (simp add: obtener_ruta_osrm_def extraer_def dividir_def desborda_def punto_de_def)

subsection \<open>The table and the derived column\<close>

lemma length_load_data: "length (load_data excel) = length excel"
  by (simp add: load_data_def)

lemma nth_load_data: "i < length excel \<Longrightarrow> load_data excel ! i = (i, excel ! i)"
  by (simp add: load_data_def)

lemma length_df_principal: "length (df_principal excel) = length excel"
  by (simp add: df_principal_def Let_def asignar_eficiencia_def serie_div_def columna_def
      length_load_data)

lemma nth_df_principal:
  assumes "i < length excel"
  shows "df_principal excel ! i =
           (i, registro.extend (excel ! i)
                 (registro_ef.fields (pasajeros_prom (excel ! i) / distancia_km (excel ! i))))"
  using assms
  by (simp add: df_principal_def Let_def asignar_eficiencia_def serie_div_def columna_def
      length_load_data nth_load_data)

lemma map_fst_df_principal: "map fst (df_principal excel) = [0..<length excel]"
  by (rule nth_equalityI) (simp_all add: length_df_principal nth_df_principal)

text \<open>
  Claim C6. The table after line 33 has one row per row of the file, in the same order;
  row \<open>i\<close> keeps its label and its columns, and where its distance is not 0 its
  \<^verbatim>\<open>eficiencia\<close> is its \<^verbatim>\<open>pasajeros_prom\<close> divided by its \<^verbatim>\<open>distancia_km\<close>.
\<close>

theorem eficiencia_es_cociente:
  assumes "i < length excel" and "distancia_km (excel ! i) \<noteq> 0"
  shows "length (df_principal excel) = length excel
       \<and> fst (df_principal excel ! i) = i
       \<and> registro.truncate (snd (df_principal excel ! i)) = excel ! i
       \<and> eficiencia (snd (df_principal excel ! i))
           = pasajeros_prom (excel ! i) / distancia_km (excel ! i)"
  using assms
  by (simp add: length_df_principal nth_df_principal registro.defs registro_ef.defs)

theorem eficiencia_es_cociente_witness:
  "(0::nat) < length [\<lparr>inicio = ''A'', fin = ''B'', ruta = ''R1'', lat_inicio = 9, lon_inicio = -84,
        lat_fin = 10, lon_fin = -83, distancia_km = 12, pasajeros_prom = 300,
        frecuencia_hora = 4\<rparr>]
   \<and> distancia_km ([\<lparr>inicio = ''A'', fin = ''B'', ruta = ''R1'', lat_inicio = 9, lon_inicio = -84,
        lat_fin = 10, lon_fin = -83, distancia_km = 12, pasajeros_prom = 300,
        frecuencia_hora = 4\<rparr>] ! 0) \<noteq> 0
   \<and> eficiencia (snd (df_principal [\<lparr>inicio = ''A'', fin = ''B'', ruta = ''R1'', lat_inicio = 9, lon_inicio = -84,
        lat_fin = 10, lon_fin = -83, distancia_km = 12, pasajeros_prom = 300,
        frecuencia_hora = 4\<rparr>] ! 0)) = 25"
  using eficiencia_es_cociente [of 0 "[\<lparr>inicio = ''A'', fin = ''B'', ruta = ''R1'', lat_inicio = 9, lon_inicio = -84,
        lat_fin = 10, lon_fin = -83, distancia_km = 12, pasajeros_prom = 300,
        frecuencia_hora = 4\<rparr>]"]
  by simp

subsection \<open>The selection filter\<close>

lemma seleccionar_mascara:
  "seleccionar df (map (\<lambda>ir. (fst ir, P (snd ir))) df) = filter (\<lambda>ir. P (snd ir)) df"
  by (induction df) (simp_all add: seleccionar_def)

lemma mascara_od:
  "serie_and (serie_eq (columna inicio df) a) (serie_eq (columna fin df) b)
     = map (\<lambda>ir. (fst ir, inicio (snd ir) = a \<and> fin (snd ir) = b)) df"
  by (induction df) (simp_all add: serie_and_def serie_eq_def columna_def case_prod_beta)

lemma rutas_od_eq_filter:
  "rutas_od df a b = filter (\<lambda>ir. inicio (snd ir) = a \<and> fin (snd ir) = b) df"
  using seleccionar_mascara [of df "\<lambda>r. inicio r = a \<and> fin r = b"]
  by (simp add: rutas_od_def mascara_od)

text \<open>
  Claim C4. For every table and every pair of labels, the selection of line 102 is the
  table restricted to the rows whose \<^verbatim>\<open>inicio\<close> is the chosen origin and whose
  \<^verbatim>\<open>fin\<close> is the chosen destination: those rows, each once, with their labels and in
  their order, and no other row.
\<close>

theorem rutas_od_exacto:
  "rutas_od df a b = filter (\<lambda>(i, r). inicio r = a \<and> fin r = b) df"
  by (simp add: rutas_od_eq_filter case_prod_unfold)

text \<open>The specification's example: the pair A, B occurs in two rows, named R1 and R2.\<close>

theorem rutas_od_exacto_witness:
  "rutas_od
     [(0, \<lparr>inicio = ''A'', fin = ''B'', ruta = ''R1'', lat_inicio = 9, lon_inicio = -84,
           lat_fin = 10, lon_fin = -83, distancia_km = 12, pasajeros_prom = 300,
           frecuencia_hora = 4, eficiencia = 25\<rparr>),
      (1, \<lparr>inicio = ''A'', fin = ''C'', ruta = ''R3'', lat_inicio = 9, lon_inicio = -84,
           lat_fin = 11, lon_fin = -85, distancia_km = 20, pasajeros_prom = 100,
           frecuencia_hora = 2, eficiencia = 5\<rparr>),
      (2, \<lparr>inicio = ''A'', fin = ''B'', ruta = ''R2'', lat_inicio = 9, lon_inicio = -84,
           lat_fin = 10, lon_fin = -83, distancia_km = 15, pasajeros_prom = 150,
           frecuencia_hora = 6, eficiencia = 10\<rparr>)] ''A'' ''B''
   = [(0, \<lparr>inicio = ''A'', fin = ''B'', ruta = ''R1'', lat_inicio = 9, lon_inicio = -84,
           lat_fin = 10, lon_fin = -83, distancia_km = 12, pasajeros_prom = 300,
           frecuencia_hora = 4, eficiencia = 25\<rparr>),
      (2, \<lparr>inicio = ''A'', fin = ''B'', ruta = ''R2'', lat_inicio = 9, lon_inicio = -84,
           lat_fin = 10, lon_fin = -83, distancia_km = 15, pasajeros_prom = 150,
           frecuencia_hora = 6, eficiencia = 10\<rparr>)]"
  by (simp add: rutas_od_exacto)

text \<open>The equations that evaluate the table operations on a table written out.\<close>

lemmas evalua = df_principal_def load_data_def asignar_eficiencia_def serie_div_def columna_def
  rutas_od_def serie_eq_def serie_and_def seleccionar_def registro.defs registro_ef.defs Let_def

text \<open>
  Claim C7. When no row matches the chosen pair, the run consists of the title, the
  introduction, the side bar with its two selection widgets and the error message
  \<^verbatim>\<open>No existen rutas entre este origen y destino.\<close>, and it ends in \<^verbatim>\<open>st.stop()\<close>:
  no request, metric, table, chart, map or frame follows.
\<close>

theorem seleccion_vacia_detiene:
  assumes "rutas_od (df_principal excel) a b = []"
  shows "pagina excel a b rs get =
           ([St_title '' Dashboard de Movilidad CR'',
             St_markdown ''Use el panel izquierdo para elegir **origen** y **destino**.'',
             St_sidebar_header ''Seleccion de Origen y Destino'',
             St_sidebar_selectbox ''Seleccione el origen:''
                (sort (unique (columna inicio (df_principal excel)))),
             St_sidebar_selectbox ''Seleccione el destino:''
                (sort (unique (columna fin (df_principal excel)))),
             St_error ''No existen rutas entre este origen y destino.''], Detenida)"
  using assms by (simp add: pagina_def Let_def encabezado_def)

theorem seleccion_vacia_detiene_witness:
  "rutas_od (df_principal [\<lparr>inicio = ''A'', fin = ''B'', ruta = ''R1'', lat_inicio = 9, lon_inicio = -84,
           lat_fin = 10, lon_fin = -83, distancia_km = 12, pasajeros_prom = 300,
           frecuencia_hora = 4\<rparr>]) ''A'' ''C'' = []
   \<and> pagina [\<lparr>inicio = ''A'', fin = ''B'', ruta = ''R1'', lat_inicio = 9, lon_inicio = -84,
           lat_fin = 10, lon_fin = -83, distancia_km = 12, pasajeros_prom = 300,
           frecuencia_hora = 4\<rparr>] ''A'' ''C'' ''R1'' (\<lambda>u. \<lparr>status_code = 200, cuerpo = None\<rparr>)
     = ([St_title '' Dashboard de Movilidad CR'',
         St_markdown ''Use el panel izquierdo para elegir **origen** y **destino**.'',
         St_sidebar_header ''Seleccion de Origen y Destino'',
         St_sidebar_selectbox ''Seleccione el origen:'' [''A''],
         St_sidebar_selectbox ''Seleccione el destino:'' [''B''],
         St_error ''No existen rutas entre este origen y destino.''], Detenida)"
  using seleccion_vacia_detiene [of "[\<lparr>inicio = ''A'', fin = ''B'', ruta = ''R1'', lat_inicio = 9, lon_inicio = -84,
           lat_fin = 10, lon_fin = -83, distancia_km = 12, pasajeros_prom = 300,
           frecuencia_hora = 4\<rparr>]" "''A''" "''C''" "''R1''"
          "\<lambda>u. \<lparr>status_code = 200, cuerpo = None\<rparr>"]
  by (simp add: evalua unique_def)

subsection \<open>The row the page works with\<close>

lemma set_columna: "set (columna f df) = (\<lambda>ir. (fst ir, f (snd ir))) ` set df"
  by (auto simp add: columna_def case_prod_unfold)

lemma seleccionar_ruta:
  "seleccionar od (serie_eq (columna ruta od) rs) = filter (\<lambda>ir. ruta (snd ir) = rs) od"
proof -
  have "serie_eq (columna ruta od) rs = map (\<lambda>ir. (fst ir, ruta (snd ir) = rs)) od"
    by (simp add: serie_eq_def columna_def case_prod_unfold)
  then show ?thesis
    using seleccionar_mascara [of od "\<lambda>r. ruta r = rs"] by simp
qed

lemma set_unique_desde: "set (unique_desde vistos xs) = set xs - set vistos"
  by (induction vistos xs rule: unique_desde.induct) auto

lemma set_unique: "set (unique s) = snd ` set s"
  by (simp add: unique_def set_unique_desde)

text \<open>The first row of a filtered frame is the first row of the frame that passes.\<close>

lemma iloc0_filter:
  assumes "\<exists>ir \<in> set od. P ir"
  shows "\<exists>k < length od. iloc0 (filter P od) = Inr (snd (od ! k)) \<and> P (od ! k)
            \<and> (\<forall>j < k. \<not> P (od ! j))"
  using assms
proof (induction od)
  case Nil
  then show ?case by simp
next
  case (Cons x od)
  show ?case
  proof (cases "P x")
    case True
    then have "iloc0 (filter P (x # od)) = Inr (snd ((x # od) ! 0)) \<and> P ((x # od) ! 0)
        \<and> (\<forall>j < 0. \<not> P ((x # od) ! j))"
      by (simp add: iloc0_def)
    then show ?thesis by blast
  next
    case False
    with Cons.prems have "\<exists>ir \<in> set od. P ir" by auto
    from Cons.IH [OF this] obtain k where k: "k < length od"
      "iloc0 (filter P od) = Inr (snd (od ! k))" "P (od ! k)" "\<forall>j < k. \<not> P (od ! j)"
      by blast
    have "\<forall>j < Suc k. \<not> P ((x # od) ! j)"
      using False k(4) by (auto simp add: nth_Cons split: nat.splits)
    with k False have "Suc k < length (x # od)
        \<and> iloc0 (filter P (x # od)) = Inr (snd ((x # od) ! Suc k))
        \<and> P ((x # od) ! Suc k) \<and> (\<forall>j < Suc k. \<not> P ((x # od) ! j))"
      by simp
    then show ?thesis by blast
  qed
qed

lemma fila_una: "length od = 1 \<Longrightarrow> fila od rs = Inr (snd (od ! 0))"
  by (cases od) (simp_all add: fila_def iloc0_def)

lemma fila_varias:
  assumes "length od > 1" and "rs \<in> set (unique (columna ruta od))"
  shows "\<exists>k < length od. fila od rs = Inr (snd (od ! k)) \<and> ruta (snd (od ! k)) = rs
                 \<and> (\<forall>j < k. ruta (snd (od ! j)) \<noteq> rs)"
proof -
  from assms(2) have "\<exists>ir \<in> set od. ruta (snd ir) = rs"
    by (force simp add: set_unique set_columna)
  from iloc0_filter [of od "\<lambda>ir. ruta (snd ir) = rs", OF this] assms(1) show ?thesis
    by (simp add: fila_def seleccionar_ruta)
qed

text \<open>Where the third selection widget can and cannot occur in the trace.\<close>

lemma indicadores_sin_selectbox:
  "indicadores od t = (ev, e) \<Longrightarrow> St_sidebar_selectbox l ops \<notin> set ev"
  by (auto simp add: indicadores_def Let_def split: sum.splits option.splits)

lemma encabezado_sin_varias:
  "St_sidebar_selectbox ''Varias rutas disponibles:'' ops \<notin> set (encabezado df)"
  by (simp add: encabezado_def)

lemma resto_sin_selectbox:
  "St_sidebar_selectbox l ops \<notin> set (tabla_y_grafico df od a b @ mapas df @ map Pydeck_chart cs)"
  by (auto simp add: tabla_y_grafico_def mapas_def)

lemma pagina_una_fila:
  assumes "length (rutas_od (df_principal excel) a b) = 1"
  shows "St_sidebar_selectbox ''Varias rutas disponibles:'' ops
           \<notin> set (fst (pagina excel a b rs get))"
proof -
  have ne: "rutas_od (df_principal excel) a b \<noteq> []" using assms by auto
  show ?thesis
    using assms ne encabezado_sin_varias [of ops "df_principal excel"]
      resto_sin_selectbox [of "''Varias rutas disponibles:''" ops "df_principal excel"
        "rutas_od (df_principal excel) a b" a b]
    by (auto simp add: pagina_def Let_def split: sum.splits prod.splits option.splits
          dest: indicadores_sin_selectbox)
qed

lemma pagina_varias_filas:
  assumes "length (rutas_od (df_principal excel) a b) > 1"
  shows "St_sidebar_selectbox ''Varias rutas disponibles:''
            (unique (columna ruta (rutas_od (df_principal excel) a b)))
           \<in> set (fst (pagina excel a b rs get))"
proof -
  have ne: "rutas_od (df_principal excel) a b \<noteq> []" using assms by auto
  show ?thesis
    using assms ne
    by (auto simp add: pagina_def Let_def split: sum.splits prod.splits option.splits)
qed

lemma pagina_una_fila_indep:
  assumes "length (rutas_od (df_principal excel) a b) = 1"
  shows "pagina excel a b rs get = pagina excel a b rs' get"
  using assms by (simp add: pagina_def Let_def fila_def)

text \<open>
  Claim C8. Let \<open>od\<close> be the selection for the chosen pair. If \<open>od\<close> has exactly one row,
  that row is the one the page works with, whatever the route name given; the run does not
  depend on that name and the widget \<^verbatim>\<open>Varias rutas disponibles:\<close> is not rendered. If
  \<open>od\<close> has more than one row and the route name is one of the options of the widget, the
  widget is rendered with the distinct route names of \<open>od\<close>, and the page works with the
  first row of \<open>od\<close> that has the chosen name.
\<close>

theorem fila_seleccionada:
  assumes "od = rutas_od (df_principal excel) a b"
  shows "(length od = 1 \<longrightarrow>
            fila od rs = Inr (snd (od ! 0))
          \<and> pagina excel a b rs get = pagina excel a b rs' get
          \<and> (\<forall>ops. St_sidebar_selectbox ''Varias rutas disponibles:'' ops
                     \<notin> set (fst (pagina excel a b rs get))))
       \<and> (length od > 1 \<and> rs \<in> set (unique (columna ruta od)) \<longrightarrow>
            (\<exists>k < length od. fila od rs = Inr (snd (od ! k)) \<and> ruta (snd (od ! k)) = rs
                 \<and> (\<forall>j < k. ruta (snd (od ! j)) \<noteq> rs))
          \<and> St_sidebar_selectbox ''Varias rutas disponibles:'' (unique (columna ruta od))
                     \<in> set (fst (pagina excel a b rs get)))"
proof (intro conjI impI)
  assume 1: "length od = 1"
  show "fila od rs = Inr (snd (od ! 0))" using 1 by (rule fila_una)
  show "pagina excel a b rs get = pagina excel a b rs' get"
    using 1 unfolding assms by (rule pagina_una_fila_indep)
  show "\<forall>ops. St_sidebar_selectbox ''Varias rutas disponibles:'' ops
                     \<notin> set (fst (pagina excel a b rs get))"
    using 1 pagina_una_fila unfolding assms by blast
next
  assume 2: "length od > 1 \<and> rs \<in> set (unique (columna ruta od))"
  show "\<exists>k < length od. fila od rs = Inr (snd (od ! k)) \<and> ruta (snd (od ! k)) = rs
                 \<and> (\<forall>j < k. ruta (snd (od ! j)) \<noteq> rs)"
    using 2 fila_varias by blast
  show "St_sidebar_selectbox ''Varias rutas disponibles:'' (unique (columna ruta od))
                     \<in> set (fst (pagina excel a b rs get))"
    using 2 pagina_varias_filas unfolding assms by blast
qed

text \<open>
  A table with one row from A to B, asked with a route name that does not occur, and a
  table with two rows from A to B, asked for the second.
\<close>

theorem fila_seleccionada_witness:
  "length (rutas_od (df_principal [\<lparr>inicio = ''A'', fin = ''B'', ruta = ''R1'', lat_inicio = 9, lon_inicio = -84,
           lat_fin = 10, lon_fin = -83, distancia_km = 12, pasajeros_prom = 300,
           frecuencia_hora = 4\<rparr>]) ''A'' ''B'') = 1
   \<and> fila (rutas_od (df_principal [\<lparr>inicio = ''A'', fin = ''B'', ruta = ''R1'', lat_inicio = 9, lon_inicio = -84,
           lat_fin = 10, lon_fin = -83, distancia_km = 12, pasajeros_prom = 300,
           frecuencia_hora = 4\<rparr>]) ''A'' ''B'') ''R9''
       = Inr \<lparr>inicio = ''A'', fin = ''B'', ruta = ''R1'', lat_inicio = 9, lon_inicio = -84,
           lat_fin = 10, lon_fin = -83, distancia_km = 12, pasajeros_prom = 300,
           frecuencia_hora = 4, eficiencia = 25\<rparr>
   \<and> length (rutas_od (df_principal [\<lparr>inicio = ''A'', fin = ''B'', ruta = ''R1'', lat_inicio = 9, lon_inicio = -84,
           lat_fin = 10, lon_fin = -83, distancia_km = 12, pasajeros_prom = 300,
           frecuencia_hora = 4\<rparr>,
       \<lparr>inicio = ''A'', fin = ''B'', ruta = ''R2'', lat_inicio = 9, lon_inicio = -84,
           lat_fin = 10, lon_fin = -83, distancia_km = 15, pasajeros_prom = 150,
           frecuencia_hora = 6\<rparr>]) ''A'' ''B'') > 1
   \<and> ''R2'' \<in> set (unique (columna ruta (rutas_od (df_principal [\<lparr>inicio = ''A'', fin = ''B'', ruta = ''R1'', lat_inicio = 9, lon_inicio = -84,
           lat_fin = 10, lon_fin = -83, distancia_km = 12, pasajeros_prom = 300,
           frecuencia_hora = 4\<rparr>,
       \<lparr>inicio = ''A'', fin = ''B'', ruta = ''R2'', lat_inicio = 9, lon_inicio = -84,
           lat_fin = 10, lon_fin = -83, distancia_km = 15, pasajeros_prom = 150,
           frecuencia_hora = 6\<rparr>]) ''A'' ''B'')))
   \<and> fila (rutas_od (df_principal [\<lparr>inicio = ''A'', fin = ''B'', ruta = ''R1'', lat_inicio = 9, lon_inicio = -84,
           lat_fin = 10, lon_fin = -83, distancia_km = 12, pasajeros_prom = 300,
           frecuencia_hora = 4\<rparr>,
       \<lparr>inicio = ''A'', fin = ''B'', ruta = ''R2'', lat_inicio = 9, lon_inicio = -84,
           lat_fin = 10, lon_fin = -83, distancia_km = 15, pasajeros_prom = 150,
           frecuencia_hora = 6\<rparr>]) ''A'' ''B'') ''R2''
       = Inr \<lparr>inicio = ''A'', fin = ''B'', ruta = ''R2'', lat_inicio = 9, lon_inicio = -84,
           lat_fin = 10, lon_fin = -83, distancia_km = 15, pasajeros_prom = 150,
           frecuencia_hora = 6, eficiencia = 10\<rparr>"
  using fila_seleccionada [OF refl, of "[\<lparr>inicio = ''A'', fin = ''B'', ruta = ''R1'', lat_inicio = 9, lon_inicio = -84,
           lat_fin = 10, lon_fin = -83, distancia_km = 12, pasajeros_prom = 300,
           frecuencia_hora = 4\<rparr>]" "''A''" "''B''" "''R9''"]
    fila_seleccionada [OF refl, of "[\<lparr>inicio = ''A'', fin = ''B'', ruta = ''R1'', lat_inicio = 9, lon_inicio = -84,
           lat_fin = 10, lon_fin = -83, distancia_km = 12, pasajeros_prom = 300,
           frecuencia_hora = 4\<rparr>,
       \<lparr>inicio = ''A'', fin = ''B'', ruta = ''R2'', lat_inicio = 9, lon_inicio = -84,
           lat_fin = 10, lon_fin = -83, distancia_km = 15, pasajeros_prom = 150,
           frecuencia_hora = 6\<rparr>]" "''A''" "''B''" "''R2''"]
  by (simp add: evalua unique_def fila_def iloc0_def)

subsection \<open>The extremal records\<close>

lemma foldl_menor:
  "foldl (\<lambda>m jy. if snd jy < snd m then jy else m) (m0 :: nat \<times> real) s \<in> set (m0 # s)
   \<and> (\<forall>jy \<in> set (m0 # s).
         snd (foldl (\<lambda>m jy. if snd jy < snd m then jy else m) m0 s) \<le> snd jy)"
proof (induction s arbitrary: m0)
  case Nil
  show ?case by simp
next
  case (Cons x s)
  show ?case
    using Cons.IH [of "if snd x < snd m0 then x else m0"]
    by (auto split: if_splits)
qed

lemma foldl_mayor:
  "foldl (\<lambda>m jy. if snd jy > snd m then jy else m) (m0 :: nat \<times> real) s \<in> set (m0 # s)
   \<and> (\<forall>jy \<in> set (m0 # s).
         snd jy \<le> snd (foldl (\<lambda>m jy. if snd jy > snd m then jy else m) m0 s))"
proof (induction s arbitrary: m0)
  case Nil
  show ?case by simp
next
  case (Cons x s)
  show ?case
    using Cons.IH [of "if snd x > snd m0 then x else m0"]
    by (auto split: if_splits)
qed

lemma idxmin_minimo:
  assumes "s \<noteq> []"
  shows "\<exists>i x. idxmin s = Inr i \<and> (i, x) \<in> set s \<and> (\<forall>jy \<in> set s. x \<le> snd jy)"
proof -
  from assms obtain m0 t where s: "s = m0 # t" by (cases s) auto
  let ?m = "foldl (\<lambda>m jy. if snd jy < snd m then jy else m) m0 t"
  have "idxmin s = Inr (fst ?m)" by (simp add: s)
  moreover have "(fst ?m, snd ?m) \<in> set s" using foldl_menor [of m0 t] by (simp add: s)
  moreover have "\<forall>jy \<in> set s. snd ?m \<le> snd jy" using foldl_menor [of m0 t] by (simp add: s)
  ultimately show ?thesis by blast
qed

lemma idxmax_maximo:
  assumes "s \<noteq> []"
  shows "\<exists>i x. idxmax s = Inr i \<and> (i, x) \<in> set s \<and> (\<forall>jy \<in> set s. snd jy \<le> x)"
proof -
  from assms obtain m0 t where s: "s = m0 # t" by (cases s) auto
  let ?m = "foldl (\<lambda>m jy. if snd jy > snd m then jy else m) m0 t"
  have "idxmax s = Inr (fst ?m)" by (simp add: s)
  moreover have "(fst ?m, snd ?m) \<in> set s" using foldl_mayor [of m0 t] by (simp add: s)
  moreover have "\<forall>jy \<in> set s. snd jy \<le> snd ?m" using foldl_mayor [of m0 t] by (simp add: s)
  ultimately show ?thesis by blast
qed

lemma loc_distinct:
  "distinct (map fst df) \<Longrightarrow> (i, r) \<in> set df \<Longrightarrow> loc df i = Inr r"
  by (simp add: loc_def)

lemma extremo_min:
  assumes "od \<noteq> []" and "distinct (map fst od)"
  shows "\<exists>i r. idxmin (columna f od) = Inr i \<and> loc od i = Inr r \<and> (i, r) \<in> set od
           \<and> (\<forall>jr \<in> set od. f r \<le> f (snd jr))"
proof -
  from assms(1) have "columna f od \<noteq> []" by (simp add: columna_def)
  from idxmin_minimo [OF this] obtain i x where
    i: "idxmin (columna f od) = Inr i" and m: "(i, x) \<in> set (columna f od)"
    and le: "\<forall>jy \<in> set (columna f od). x \<le> snd jy" by blast
  from m obtain r where r: "(i, r) \<in> set od" and x: "x = f r"
    by (auto simp add: set_columna)
  have "\<forall>jr \<in> set od. f r \<le> f (snd jr)"
    using le x by (auto simp add: set_columna)
  with i r loc_distinct [OF assms(2) r] show ?thesis by blast
qed

lemma extremo_max:
  assumes "od \<noteq> []" and "distinct (map fst od)"
  shows "\<exists>i r. idxmax (columna f od) = Inr i \<and> loc od i = Inr r \<and> (i, r) \<in> set od
           \<and> (\<forall>jr \<in> set od. f (snd jr) \<le> f r)"
proof -
  from assms(1) have "columna f od \<noteq> []" by (simp add: columna_def)
  from idxmax_maximo [OF this] obtain i x where
    i: "idxmax (columna f od) = Inr i" and m: "(i, x) \<in> set (columna f od)"
    and le: "\<forall>jy \<in> set (columna f od). snd jy \<le> x" by blast
  from m obtain r where r: "(i, r) \<in> set od" and x: "x = f r"
    by (auto simp add: set_columna)
  have "\<forall>jr \<in> set od. f (snd jr) \<le> f r"
    using le x by (auto simp add: set_columna)
  with i r loc_distinct [OF assms(2) r] show ?thesis by blast
qed

text \<open>The labels of a selection are distinct, so \<^verbatim>\<open>loc\<close> finds the row of a label.\<close>

lemma distinct_rutas_od: "distinct (map fst (rutas_od (df_principal excel) a b))"
  by (simp add: rutas_od_eq_filter distinct_map_filter map_fst_df_principal)

text \<open>Every row of the table carries the quotient computed on line 33.\<close>

lemma eficiencia_df_principal:
  assumes "ir \<in> set (df_principal excel)"
  shows "eficiencia (snd ir) = pasajeros_prom (snd ir) / distancia_km (snd ir)"
proof -
  from assms obtain i where "i < length excel" and "ir = df_principal excel ! i"
    by (auto simp add: in_set_conv_nth length_df_principal)
  then show ?thesis
    by (simp add: nth_df_principal registro.defs registro_ef.defs)
qed

lemma eficiencia_rutas_od:
  assumes "r \<in> snd ` set (rutas_od (df_principal excel) a b)"
  shows "eficiencia r = pasajeros_prom r / distancia_km r"
  using assms eficiencia_df_principal [of _ excel]
  by (auto simp add: rutas_od_eq_filter)

text \<open>
  Claim C9. For a selection \<open>od\<close> that is not empty, the look-ups of lines 141 and 144
  succeed; they yield a row of \<open>od\<close> whose distance is the least of \<open>od\<close> and a row
  whose frequency is the greatest. When no row of \<open>od\<close> has distance 0, so that every
  efficiency of \<open>od\<close> is the quotient of line 33, the look-up of line 147 succeeds as well
  and yields a row whose quotient of passengers by distance is the greatest of \<open>od\<close>, and
  the three metrics show the route name and the value of those rows.
\<close>

theorem indicadores_extremos:
  assumes "od = rutas_od (df_principal excel) a b" and "od \<noteq> []"
  shows "\<exists>rc rf.
           ruta_corta od = Inr rc \<and> rc \<in> snd ` set od
         \<and> (\<forall>r \<in> snd ` set od. distancia_km rc \<le> distancia_km r)
         \<and> ruta_freq od = Inr rf \<and> rf \<in> snd ` set od
         \<and> (\<forall>r \<in> snd ` set od. frecuencia_hora r \<le> frecuencia_hora rf)
         \<and> ((\<forall>r \<in> snd ` set od. distancia_km r \<noteq> 0) \<longrightarrow>
              (\<exists>re. ruta_eff od = Inr re \<and> re \<in> snd ` set od
                 \<and> eficiencia re = pasajeros_prom re / distancia_km re
                 \<and> (\<forall>r \<in> snd ` set od.
                       pasajeros_prom r / distancia_km r
                         \<le> pasajeros_prom re / distancia_km re)
                 \<and> indicadores od (Some t) =
                     ([St_header ''Indicadores'',
                       St_metric ''Ruta mas corta'' (ruta rc) (distancia_km rc),
                       St_metric ''Mas frecuente'' (ruta rf) (frecuencia_hora rf),
                       St_metric ''Mas eficiente'' (ruta re) (eficiencia re),
                       St_metric_duracion t], None)))"
proof -
  have d: "distinct (map fst od)" by (simp add: assms(1) distinct_rutas_od)
  from extremo_min [OF assms(2) d, of distancia_km] obtain i1 rc where
    c: "ruta_corta od = Inr rc" "(i1, rc) \<in> set od"
       "\<forall>jr \<in> set od. distancia_km rc \<le> distancia_km (snd jr)"
    by (auto simp add: ruta_corta_def)
  from extremo_max [OF assms(2) d, of frecuencia_hora] obtain i2 rf where
    f: "ruta_freq od = Inr rf" "(i2, rf) \<in> set od"
       "\<forall>jr \<in> set od. frecuencia_hora (snd jr) \<le> frecuencia_hora rf"
    by (auto simp add: ruta_freq_def)
  from extremo_max [OF assms(2) d, of eficiencia] obtain i3 re where
    e: "ruta_eff od = Inr re" "(i3, re) \<in> set od"
       "\<forall>jr \<in> set od. eficiencia (snd jr) \<le> eficiencia re"
    by (auto simp add: ruta_eff_def)
  have m: "rc \<in> snd ` set od" "rf \<in> snd ` set od" "re \<in> snd ` set od"
    using c(2) f(2) e(2) by force+
  have q: "\<forall>r \<in> snd ` set od. eficiencia r = pasajeros_prom r / distancia_km r"
    unfolding assms(1) using eficiencia_rutas_od by blast
  have qe: "eficiencia re = pasajeros_prom re / distancia_km re"
    using q m(3) by blast
  have qm: "\<forall>r \<in> snd ` set od.
              pasajeros_prom r / distancia_km r \<le> pasajeros_prom re / distancia_km re"
  proof
    fix r assume r: "r \<in> snd ` set od"
    then have "eficiencia r \<le> eficiencia re" using e(3) by auto
    moreover from q r have "eficiencia r = pasajeros_prom r / distancia_km r" by blast
    ultimately show "pasajeros_prom r / distancia_km r \<le> pasajeros_prom re / distancia_km re"
      using qe by simp
  qed
  have i: "indicadores od (Some t) =
             ([St_header ''Indicadores'',
               St_metric ''Ruta mas corta'' (ruta rc) (distancia_km rc),
               St_metric ''Mas frecuente'' (ruta rf) (frecuencia_hora rf),
               St_metric ''Mas eficiente'' (ruta re) (eficiencia re),
               St_metric_duracion t], None)"
    by (simp add: indicadores_def c(1) f(1) e(1))
  have dm: "\<forall>r \<in> snd ` set od. distancia_km rc \<le> distancia_km r"
    using c(3) by auto
  have fm: "\<forall>r \<in> snd ` set od. frecuencia_hora r \<le> frecuencia_hora rf"
    using f(3) by auto
  from e(1) m(3) qe qm i
  have "\<exists>re. ruta_eff od = Inr re \<and> re \<in> snd ` set od
                 \<and> eficiencia re = pasajeros_prom re / distancia_km re
                 \<and> (\<forall>r \<in> snd ` set od.
                       pasajeros_prom r / distancia_km r
                         \<le> pasajeros_prom re / distancia_km re)
                 \<and> indicadores od (Some t) =
                     ([St_header ''Indicadores'',
                       St_metric ''Ruta mas corta'' (ruta rc) (distancia_km rc),
                       St_metric ''Mas frecuente'' (ruta rf) (frecuencia_hora rf),
                       St_metric ''Mas eficiente'' (ruta re) (eficiencia re),
                       St_metric_duracion t], None)"
    by blast
  with c(1) m(1) dm f(1) m(2) fm show ?thesis by blast
qed

text \<open>
  Two routes from A to B, of 12 and 15 km: R1 is the shorter and the more efficient, R2
  the more frequent.
\<close>

theorem indicadores_extremos_witness:
  "rutas_od (df_principal
      [\<lparr>inicio = ''A'', fin = ''B'', ruta = ''R1'', lat_inicio = 9, lon_inicio = -84,
           lat_fin = 10, lon_fin = -83, distancia_km = 12, pasajeros_prom = 300,
           frecuencia_hora = 4\<rparr>,
       \<lparr>inicio = ''A'', fin = ''C'', ruta = ''R3'', lat_inicio = 9, lon_inicio = -84,
           lat_fin = 11, lon_fin = -85, distancia_km = 20, pasajeros_prom = 100,
           frecuencia_hora = 2\<rparr>,
       \<lparr>inicio = ''A'', fin = ''B'', ruta = ''R2'', lat_inicio = 9, lon_inicio = -84,
           lat_fin = 10, lon_fin = -83, distancia_km = 15, pasajeros_prom = 150,
           frecuencia_hora = 6\<rparr>]) ''A'' ''B'' \<noteq> []
   \<and> map (\<lambda>ir. distancia_km (snd ir)) (rutas_od (df_principal
      [\<lparr>inicio = ''A'', fin = ''B'', ruta = ''R1'', lat_inicio = 9, lon_inicio = -84,
           lat_fin = 10, lon_fin = -83, distancia_km = 12, pasajeros_prom = 300,
           frecuencia_hora = 4\<rparr>,
       \<lparr>inicio = ''A'', fin = ''C'', ruta = ''R3'', lat_inicio = 9, lon_inicio = -84,
           lat_fin = 11, lon_fin = -85, distancia_km = 20, pasajeros_prom = 100,
           frecuencia_hora = 2\<rparr>,
       \<lparr>inicio = ''A'', fin = ''B'', ruta = ''R2'', lat_inicio = 9, lon_inicio = -84,
           lat_fin = 10, lon_fin = -83, distancia_km = 15, pasajeros_prom = 150,
           frecuencia_hora = 6\<rparr>]) ''A'' ''B'') = [12, 15]
   \<and> indicadores (rutas_od (df_principal
      [\<lparr>inicio = ''A'', fin = ''B'', ruta = ''R1'', lat_inicio = 9, lon_inicio = -84,
           lat_fin = 10, lon_fin = -83, distancia_km = 12, pasajeros_prom = 300,
           frecuencia_hora = 4\<rparr>,
       \<lparr>inicio = ''A'', fin = ''C'', ruta = ''R3'', lat_inicio = 9, lon_inicio = -84,
           lat_fin = 11, lon_fin = -85, distancia_km = 20, pasajeros_prom = 100,
           frecuencia_hora = 2\<rparr>,
       \<lparr>inicio = ''A'', fin = ''B'', ruta = ''R2'', lat_inicio = 9, lon_inicio = -84,
           lat_fin = 10, lon_fin = -83, distancia_km = 15, pasajeros_prom = 150,
           frecuencia_hora = 6\<rparr>]) ''A'' ''B'') (Some 10)
     = ([St_header ''Indicadores'',
         St_metric ''Ruta mas corta'' ''R1'' 12,
         St_metric ''Mas frecuente'' ''R2'' 6,
         St_metric ''Mas eficiente'' ''R1'' 25,
         St_metric_duracion 10], None)"
  using indicadores_extremos [OF refl, of
      "[\<lparr>inicio = ''A'', fin = ''B'', ruta = ''R1'', lat_inicio = 9, lon_inicio = -84,
           lat_fin = 10, lon_fin = -83, distancia_km = 12, pasajeros_prom = 300,
           frecuencia_hora = 4\<rparr>,
       \<lparr>inicio = ''A'', fin = ''C'', ruta = ''R3'', lat_inicio = 9, lon_inicio = -84,
           lat_fin = 11, lon_fin = -85, distancia_km = 20, pasajeros_prom = 100,
           frecuencia_hora = 2\<rparr>,
       \<lparr>inicio = ''A'', fin = ''B'', ruta = ''R2'', lat_inicio = 9, lon_inicio = -84,
           lat_fin = 10, lon_fin = -83, distancia_km = 15, pasajeros_prom = 150,
           frecuencia_hora = 6\<rparr>]" "''A''" "''B''" 10]
  by (simp add: evalua indicadores_def ruta_corta_def ruta_freq_def ruta_eff_def loc_def)

subsection \<open>The colours of the general map\<close>

text \<open>
  The interpolation between neighbours of a sorted list does not decrease when the
  position grows.
\<close>

lemma interpola_mono:
  fixes xs :: "real list"
  assumes s: "sorted xs" and n: "xs \<noteq> []"
    and h0: "0 \<le> h" and hh: "h \<le> h'" and hn: "h' \<le> real (length xs - 1)"
  shows "xs ! nat \<lfloor>h\<rfloor>
           + (h - real (nat \<lfloor>h\<rfloor>)) * (xs ! min (nat \<lfloor>h\<rfloor> + 1) (length xs - 1) - xs ! nat \<lfloor>h\<rfloor>)
       \<le> xs ! nat \<lfloor>h'\<rfloor>
           + (h' - real (nat \<lfloor>h'\<rfloor>)) * (xs ! min (nat \<lfloor>h'\<rfloor> + 1) (length xs - 1) - xs ! nat \<lfloor>h'\<rfloor>)"
proof -
  define lo where "lo = nat \<lfloor>h\<rfloor>"
  define lo' where "lo' = nat \<lfloor>h'\<rfloor>"
  define hi where "hi = min (lo + 1) (length xs - 1)"
  define hi' where "hi' = min (lo' + 1) (length xs - 1)"
  have h'0: "0 \<le> h'" using h0 hh by simp
  have lole: "lo \<le> lo'" unfolding lo_def lo'_def using hh by (simp add: floor_mono nat_mono)
  have f0: "0 \<le> h - real lo" and f1: "h - real lo \<le> 1"
    unfolding lo_def using h0 by linarith+
  have f0': "0 \<le> h' - real lo'" and f1': "h' - real lo' \<le> 1"
    unfolding lo'_def using h'0 by linarith+
  have lo'n: "lo' \<le> length xs - 1"
  proof -
    have "real lo' \<le> h'" using f0' by simp
    with hn have "real lo' \<le> real (length xs - 1)" by linarith
    then show ?thesis by simp
  qed
  have len: "length xs - 1 < length xs" using n by (cases xs) auto
  have hi_lt: "hi < length xs" "hi' < length xs" unfolding hi_def hi'_def using len by auto
  have lo_lt: "lo < length xs" "lo' < length xs" using lole lo'n len by auto
  have lohi: "lo \<le> hi" "lo' \<le> hi'" unfolding hi_def hi'_def using lole lo'n by auto
  have d: "0 \<le> xs ! hi - xs ! lo" using sorted_nth_mono [OF s lohi(1) hi_lt(1)] by simp
  have d': "0 \<le> xs ! hi' - xs ! lo'" using sorted_nth_mono [OF s lohi(2) hi_lt(2)] by simp
  have "xs ! lo + (h - real lo) * (xs ! hi - xs ! lo)
          \<le> xs ! lo' + (h' - real lo') * (xs ! hi' - xs ! lo')"
  proof (cases "lo = lo'")
    case True
    then have "hi = hi'" by (simp add: hi_def hi'_def)
    moreover have "(h - real lo) * (xs ! hi - xs ! lo) \<le> (h' - real lo) * (xs ! hi - xs ! lo)"
      using hh d by (intro mult_right_mono) simp_all
    ultimately show ?thesis using True by simp
  next
    case False
    with lole have lt: "lo + 1 \<le> lo'" by simp
    with lo'n have hi: "hi = lo + 1" by (simp add: hi_def)
    have "(h - real lo) * (xs ! hi - xs ! lo) \<le> 1 * (xs ! hi - xs ! lo)"
      using f1 d by (intro mult_right_mono) simp_all
    then have "xs ! lo + (h - real lo) * (xs ! hi - xs ! lo) \<le> xs ! hi" by simp
    also have "xs ! hi \<le> xs ! lo'"
      using sorted_nth_mono [OF s _ lo_lt(2), of hi] lt hi by simp
    also have "xs ! lo' \<le> xs ! lo' + (h' - real lo') * (xs ! hi' - xs ! lo')"
      using f0' d' by simp
    finally show ?thesis .
  qed
  then show ?thesis by (simp add: lo_def lo'_def hi_def hi'_def)
qed

lemma quantile_mono:
  assumes "s \<noteq> []" and "0 \<le> q" and "q \<le> q'" and "q' \<le> 1"
  shows "\<exists>x y. quantile s q = Some x \<and> quantile s q' = Some y \<and> x \<le> y"
proof -
  let ?xs = "sort (map snd s)"
  have n: "?xs \<noteq> []" using assms(1) by (metis length_sort length_map length_0_conv)
  have 1: "0 \<le> q * real (length ?xs - 1)" using assms(2) by simp
  have 2: "q * real (length ?xs - 1) \<le> q' * real (length ?xs - 1)"
    using assms(3) by (intro mult_right_mono) simp_all
  have 3: "q' * real (length ?xs - 1) \<le> real (length ?xs - 1)"
    using mult_right_mono [of q' 1 "real (length ?xs - 1)"] assms(4) by simp
  from interpola_mono [OF sorted_sort n 1 2 3] n show ?thesis
    by (simp add: quantile_def Let_def)
qed

text \<open>
  Claim C5. Over a table that is not empty (the function is reached only after the
  selection was found not to be empty) both percentiles of the \<^verbatim>\<open>eficiencia\<close> column
  exist, and for every value \<open>v\<close> the colour is \<^verbatim>\<open>green\<close> exactly when \<open>v\<close> is above the
  66th percentile, \<^verbatim>\<open>red\<close> exactly when \<open>v\<close> is at or below the 33rd, and \<^verbatim>\<open>orange\<close>
  exactly when it is neither.
\<close>

theorem eficiencia_color_terciles:
  assumes "df \<noteq> []"
  shows "\<exists>q33 q66.
           quantile (columna eficiencia df) 0.33 = Some q33
         \<and> quantile (columna eficiencia df) 0.66 = Some q66
         \<and> (eficiencia_color df v = ''green'' \<longleftrightarrow> v > q66)
         \<and> (eficiencia_color df v = ''red'' \<longleftrightarrow> v \<le> q33)
         \<and> (eficiencia_color df v = ''orange'' \<longleftrightarrow> \<not> v > q66 \<and> \<not> v \<le> q33)"
proof -
  have "columna eficiencia df \<noteq> []" using assms by (simp add: columna_def)
  from quantile_mono [OF this, of "0.33" "0.66"] obtain x y where
    q: "quantile (columna eficiencia df) 0.33 = Some x"
       "quantile (columna eficiencia df) 0.66 = Some y" "x \<le> y"
    by auto
  then show ?thesis by (auto simp add: eficiencia_color_def)
qed

text \<open>
  Efficiencies 25, 5 and 10: the percentiles are 8.3 and 14.8, so 25 is green, 10 is
  orange and 5 is red.
\<close>

theorem eficiencia_color_terciles_witness:
  "[(0::nat, \<lparr>inicio = ''A'', fin = ''B'', ruta = ''R1'', lat_inicio = 9, lon_inicio = -84,
           lat_fin = 10, lon_fin = -83, distancia_km = 12, pasajeros_prom = 300,
           frecuencia_hora = 4, eficiencia = 25\<rparr>),
      (1, \<lparr>inicio = ''A'', fin = ''C'', ruta = ''R3'', lat_inicio = 9, lon_inicio = -84,
           lat_fin = 11, lon_fin = -85, distancia_km = 20, pasajeros_prom = 100,
           frecuencia_hora = 2, eficiencia = 5\<rparr>),
      (2, \<lparr>inicio = ''A'', fin = ''B'', ruta = ''R2'', lat_inicio = 9, lon_inicio = -84,
           lat_fin = 10, lon_fin = -83, distancia_km = 15, pasajeros_prom = 150,
           frecuencia_hora = 6, eficiencia = 10\<rparr>)] \<noteq> []
  \<and> eficiencia_color
     [(0, \<lparr>inicio = ''A'', fin = ''B'', ruta = ''R1'', lat_inicio = 9, lon_inicio = -84,
           lat_fin = 10, lon_fin = -83, distancia_km = 12, pasajeros_prom = 300,
           frecuencia_hora = 4, eficiencia = 25\<rparr>),
      (1, \<lparr>inicio = ''A'', fin = ''C'', ruta = ''R3'', lat_inicio = 9, lon_inicio = -84,
           lat_fin = 11, lon_fin = -85, distancia_km = 20, pasajeros_prom = 100,
           frecuencia_hora = 2, eficiencia = 5\<rparr>),
      (2, \<lparr>inicio = ''A'', fin = ''B'', ruta = ''R2'', lat_inicio = 9, lon_inicio = -84,
           lat_fin = 10, lon_fin = -83, distancia_km = 15, pasajeros_prom = 150,
           frecuencia_hora = 6, eficiencia = 10\<rparr>)] 25 = ''green''
  \<and> eficiencia_color
     [(0, \<lparr>inicio = ''A'', fin = ''B'', ruta = ''R1'', lat_inicio = 9, lon_inicio = -84,
           lat_fin = 10, lon_fin = -83, distancia_km = 12, pasajeros_prom = 300,
           frecuencia_hora = 4, eficiencia = 25\<rparr>),
      (1, \<lparr>inicio = ''A'', fin = ''C'', ruta = ''R3'', lat_inicio = 9, lon_inicio = -84,
           lat_fin = 11, lon_fin = -85, distancia_km = 20, pasajeros_prom = 100,
           frecuencia_hora = 2, eficiencia = 5\<rparr>),
      (2, \<lparr>inicio = ''A'', fin = ''B'', ruta = ''R2'', lat_inicio = 9, lon_inicio = -84,
           lat_fin = 10, lon_fin = -83, distancia_km = 15, pasajeros_prom = 150,
           frecuencia_hora = 6, eficiencia = 10\<rparr>)] 10 = ''orange''
  \<and> eficiencia_color
     [(0, \<lparr>inicio = ''A'', fin = ''B'', ruta = ''R1'', lat_inicio = 9, lon_inicio = -84,
           lat_fin = 10, lon_fin = -83, distancia_km = 12, pasajeros_prom = 300,
           frecuencia_hora = 4, eficiencia = 25\<rparr>),
      (1, \<lparr>inicio = ''A'', fin = ''C'', ruta = ''R3'', lat_inicio = 9, lon_inicio = -84,
           lat_fin = 11, lon_fin = -85, distancia_km = 20, pasajeros_prom = 100,
           frecuencia_hora = 2, eficiencia = 5\<rparr>),
      (2, \<lparr>inicio = ''A'', fin = ''B'', ruta = ''R2'', lat_inicio = 9, lon_inicio = -84,
           lat_fin = 10, lon_fin = -83, distancia_km = 15, pasajeros_prom = 150,
           frecuencia_hora = 6, eficiencia = 10\<rparr>)] 5 = ''red''"
  using eficiencia_color_terciles [of
     "[(0, \<lparr>inicio = ''A'', fin = ''B'', ruta = ''R1'', lat_inicio = 9, lon_inicio = -84,
           lat_fin = 10, lon_fin = -83, distancia_km = 12, pasajeros_prom = 300,
           frecuencia_hora = 4, eficiencia = 25\<rparr>),
      (1, \<lparr>inicio = ''A'', fin = ''C'', ruta = ''R3'', lat_inicio = 9, lon_inicio = -84,
           lat_fin = 11, lon_fin = -85, distancia_km = 20, pasajeros_prom = 100,
           frecuencia_hora = 2, eficiencia = 5\<rparr>),
      (2, \<lparr>inicio = ''A'', fin = ''B'', ruta = ''R2'', lat_inicio = 9, lon_inicio = -84,
           lat_fin = 10, lon_fin = -83, distancia_km = 15, pasajeros_prom = 150,
           frecuencia_hora = 6, eficiencia = 10\<rparr>)]" 25]
    eficiencia_color_terciles [of
     "[(0, \<lparr>inicio = ''A'', fin = ''B'', ruta = ''R1'', lat_inicio = 9, lon_inicio = -84,
           lat_fin = 10, lon_fin = -83, distancia_km = 12, pasajeros_prom = 300,
           frecuencia_hora = 4, eficiencia = 25\<rparr>),
      (1, \<lparr>inicio = ''A'', fin = ''C'', ruta = ''R3'', lat_inicio = 9, lon_inicio = -84,
           lat_fin = 11, lon_fin = -85, distancia_km = 20, pasajeros_prom = 100,
           frecuencia_hora = 2, eficiencia = 5\<rparr>),
      (2, \<lparr>inicio = ''A'', fin = ''B'', ruta = ''R2'', lat_inicio = 9, lon_inicio = -84,
           lat_fin = 10, lon_fin = -83, distancia_km = 15, pasajeros_prom = 150,
           frecuencia_hora = 6, eficiencia = 10\<rparr>)]" 10]
    eficiencia_color_terciles [of
     "[(0, \<lparr>inicio = ''A'', fin = ''B'', ruta = ''R1'', lat_inicio = 9, lon_inicio = -84,
           lat_fin = 10, lon_fin = -83, distancia_km = 12, pasajeros_prom = 300,
           frecuencia_hora = 4, eficiencia = 25\<rparr>),
      (1, \<lparr>inicio = ''A'', fin = ''C'', ruta = ''R3'', lat_inicio = 9, lon_inicio = -84,
           lat_fin = 11, lon_fin = -85, distancia_km = 20, pasajeros_prom = 100,
           frecuencia_hora = 2, eficiencia = 5\<rparr>),
      (2, \<lparr>inicio = ''A'', fin = ''B'', ruta = ''R2'', lat_inicio = 9, lon_inicio = -84,
           lat_fin = 10, lon_fin = -83, distancia_km = 15, pasajeros_prom = 150,
           frecuencia_hora = 6, eficiencia = 10\<rparr>)]" 5]
  by (simp add: eficiencia_color_def quantile_def columna_def Let_def)

subsection \<open>A route without points\<close>

text \<open>
  Claim C10. When the request for the selected row is answered with status 200 and a body
  of the expected shape whose coordinate list is empty, the fetcher returns the empty
  frame, with the duration when its quotient by 60 fits a double and with no duration
  otherwise. The page then renders the message
  \<^verbatim>\<open>Error al obtener ruta desde OSRM.\<close> right after the request and ends in
  \<^verbatim>\<open>st.stop()\<close>, before any metric, table, chart, map or frame; the run is the same as
  the run in which the request fails.
\<close>

theorem ruta_vacia_detiene:
  assumes "od = rutas_od (df_principal excel) a b" and "od \<noteq> []"
    and "fila od rs = Inr f"
    and "get (lon_inicio f, lat_inicio f, lon_fin f, lat_fin f)
           = \<lparr>status_code = 200, cuerpo = Some (JObj data)\<rparr>"
    and "map_of data ''routes'' = Some (JArr (JObj r0 # otras))"
    and "map_of r0 ''geometry'' = Some (JObj geometry)"
    and "map_of geometry ''coordinates'' = Some (JArr [])"
    and "map_of r0 ''duration'' = Some (JNum segundos)"
  shows "obtener_ruta_osrm get (lat_inicio f) (lon_inicio f) (lat_fin f) (lon_fin f)
           = Inr ([], if desborda (segundos / 60) then None else Some (segundos / 60))
       \<and> pagina excel a b rs get =
           (encabezado (df_principal excel)
            @ (if length od > 1
               then [St_sidebar_selectbox ''Varias rutas disponibles:'' (unique (columna ruta od))]
               else [])
            @ [Requests_get (lon_inicio f, lat_inicio f, lon_fin f, lat_fin f),
               St_error ''Error al obtener ruta desde OSRM.''], Detenida)
       \<and> pagina excel a b rs get
           = pagina excel a b rs (\<lambda>u. \<lparr>status_code = 500, cuerpo = None\<rparr>)"
proof -
  have o: "obtener_ruta_osrm get (lat_inicio f) (lon_inicio f) (lat_fin f) (lon_fin f)
           = Inr ([], if desborda (segundos / 60) then None else Some (segundos / 60))"
    using assms(4-8) by (simp add: obtener_ruta_osrm_def extraer_def dividir_def)
  have o': "obtener_ruta_osrm (\<lambda>u. \<lparr>status_code = 500, cuerpo = None\<rparr>)
              (lat_inicio f) (lon_inicio f) (lat_fin f) (lon_fin f) = Inr ([], None)"
    by (simp add: obtener_ruta_osrm_def)
  have p: "pagina excel a b rs get =
           (encabezado (df_principal excel)
            @ (if length od > 1
               then [St_sidebar_selectbox ''Varias rutas disponibles:'' (unique (columna ruta od))]
               else [])
            @ [Requests_get (lon_inicio f, lat_inicio f, lon_fin f, lat_fin f),
               St_error ''Error al obtener ruta desde OSRM.''], Detenida)"
    using assms(2,3) o unfolding assms(1) by (simp add: pagina_def Let_def)
  have p': "pagina excel a b rs (\<lambda>u. \<lparr>status_code = 500, cuerpo = None\<rparr>) =
           (encabezado (df_principal excel)
            @ (if length od > 1
               then [St_sidebar_selectbox ''Varias rutas disponibles:'' (unique (columna ruta od))]
               else [])
            @ [Requests_get (lon_inicio f, lat_inicio f, lon_fin f, lat_fin f),
               St_error ''Error al obtener ruta desde OSRM.''], Detenida)"
    using assms(2,3) o' unfolding assms(1) by (simp add: pagina_def Let_def)
  from o p p' show ?thesis by simp
qed

text \<open>
  A duration of 600 seconds, and one of \<open>2 ^ 1030\<close> seconds, whose quotient by 60 does
  not fit a double.
\<close>

theorem ruta_vacia_detiene_witness:
  "pagina [\<lparr>inicio = ''A'', fin = ''B'', ruta = ''R1'', lat_inicio = 9, lon_inicio = -84,
           lat_fin = 10, lon_fin = -83, distancia_km = 12, pasajeros_prom = 300,
           frecuencia_hora = 4\<rparr>] ''A'' ''B'' ''R1''
      (\<lambda>u. \<lparr>status_code = 200,
             cuerpo = Some (JObj [(''routes'', JArr [JObj
               [(''geometry'', JObj [(''coordinates'', JArr [])]),
                (''duration'', JNum 600)]])])\<rparr>)
     = ([St_title '' Dashboard de Movilidad CR'',
         St_markdown ''Use el panel izquierdo para elegir **origen** y **destino**.'',
         St_sidebar_header ''Seleccion de Origen y Destino'',
         St_sidebar_selectbox ''Seleccione el origen:'' [''A''],
         St_sidebar_selectbox ''Seleccione el destino:'' [''B''],
         Requests_get (-84, 9, -83, 10),
         St_error ''Error al obtener ruta desde OSRM.''], Detenida)
   \<and> obtener_ruta_osrm
      (\<lambda>u. \<lparr>status_code = 200,
             cuerpo = Some (JObj [(''routes'', JArr [JObj
               [(''geometry'', JObj [(''coordinates'', JArr [])]),
                (''duration'', JNum 600)]])])\<rparr>) 9 (-84) 10 (-83) = Inr ([], Some 10)
   \<and> obtener_ruta_osrm
      (\<lambda>u. \<lparr>status_code = 200,
             cuerpo = Some (JObj [(''routes'', JArr [JObj
               [(''geometry'', JObj [(''coordinates'', JArr [])]),
                (''duration'', JNum (2 ^ 1030))]])])\<rparr>) 9 (-84) 10 (-83) = Inr ([], None)"
proof -
  have corto: "pagina [\<lparr>inicio = ''A'', fin = ''B'', ruta = ''R1'', lat_inicio = 9, lon_inicio = -84,
           lat_fin = 10, lon_fin = -83, distancia_km = 12, pasajeros_prom = 300,
           frecuencia_hora = 4\<rparr>] ''A'' ''B'' ''R1''
      (\<lambda>u. \<lparr>status_code = 200,
             cuerpo = Some (JObj [(''routes'', JArr [JObj
               [(''geometry'', JObj [(''coordinates'', JArr [])]),
                (''duration'', JNum 600)]])])\<rparr>)
     = ([St_title '' Dashboard de Movilidad CR'',
         St_markdown ''Use el panel izquierdo para elegir **origen** y **destino**.'',
         St_sidebar_header ''Seleccion de Origen y Destino'',
         St_sidebar_selectbox ''Seleccione el origen:'' [''A''],
         St_sidebar_selectbox ''Seleccione el destino:'' [''B''],
         Requests_get (-84, 9, -83, 10),
         St_error ''Error al obtener ruta desde OSRM.''], Detenida)
   \<and> obtener_ruta_osrm
      (\<lambda>u. \<lparr>status_code = 200,
             cuerpo = Some (JObj [(''routes'', JArr [JObj
               [(''geometry'', JObj [(''coordinates'', JArr [])]),
                (''duration'', JNum 600)]])])\<rparr>) 9 (-84) 10 (-83) = Inr ([], Some 10)"
    using ruta_vacia_detiene [OF refl, of
      "[\<lparr>inicio = ''A'', fin = ''B'', ruta = ''R1'', lat_inicio = 9, lon_inicio = -84,
           lat_fin = 10, lon_fin = -83, distancia_km = 12, pasajeros_prom = 300,
           frecuencia_hora = 4\<rparr>]" "''A''" "''B''" "''R1''"
      "\<lparr>inicio = ''A'', fin = ''B'', ruta = ''R1'', lat_inicio = 9, lon_inicio = -84,
           lat_fin = 10, lon_fin = -83, distancia_km = 12, pasajeros_prom = 300,
           frecuencia_hora = 4, eficiencia = 25\<rparr>"
      "\<lambda>u. \<lparr>status_code = 200,
             cuerpo = Some (JObj [(''routes'', JArr [JObj
               [(''geometry'', JObj [(''coordinates'', JArr [])]),
                (''duration'', JNum 600)]])])\<rparr>"
      "[(''routes'', JArr [JObj
               [(''geometry'', JObj [(''coordinates'', JArr [])]),
                (''duration'', JNum 600)]])]"
      "[(''geometry'', JObj [(''coordinates'', JArr [])]), (''duration'', JNum 600)]"
      "[]" "[(''coordinates'', JArr [])]" 600]
    by (simp add: evalua unique_def fila_def iloc0_def encabezado_def desborda_def)
  have largo: "obtener_ruta_osrm
      (\<lambda>u. \<lparr>status_code = 200,
             cuerpo = Some (JObj [(''routes'', JArr [JObj
               [(''geometry'', JObj [(''coordinates'', JArr [])]),
                (''duration'', JNum (2 ^ 1030))]])])\<rparr>) 9 (-84) 10 (-83) = Inr ([], None)"
    using ruta_vacia_detiene [OF refl, of
      "[\<lparr>inicio = ''A'', fin = ''B'', ruta = ''R1'', lat_inicio = 9, lon_inicio = -84,
           lat_fin = 10, lon_fin = -83, distancia_km = 12, pasajeros_prom = 300,
           frecuencia_hora = 4\<rparr>]" "''A''" "''B''" "''R1''"
      "\<lparr>inicio = ''A'', fin = ''B'', ruta = ''R1'', lat_inicio = 9, lon_inicio = -84,
           lat_fin = 10, lon_fin = -83, distancia_km = 12, pasajeros_prom = 300,
           frecuencia_hora = 4, eficiencia = 25\<rparr>"
      "\<lambda>u. \<lparr>status_code = 200,
             cuerpo = Some (JObj [(''routes'', JArr [JObj
               [(''geometry'', JObj [(''coordinates'', JArr [])]),
                (''duration'', JNum (2 ^ 1030))]])])\<rparr>"
      "[(''routes'', JArr [JObj
               [(''geometry'', JObj [(''coordinates'', JArr [])]),
                (''duration'', JNum (2 ^ 1030))]])]"
      "[(''geometry'', JObj [(''coordinates'', JArr [])]), (''duration'', JNum (2 ^ 1030))]"
      "[]" "[(''coordinates'', JArr [])]" "2 ^ 1030", THEN conjunct1]
    by (simp add: evalua fila_def iloc0_def desborda_def)
  from corto largo show ?thesis by blast
qed

subsection \<open>The animation\<close>

lemma cuadro_de_en_rango:
  "i < length ruta_real \<Longrightarrow>
   cuadro_de ruta_real i =
     Inr \<lparr>capa_icono = [ruta_real ! i],
          capa_camino = map (\<lambda>r. (lon r, lat r)) (take (i + 1) ruta_real),
          latitude = lat (ruta_real ! i), longitude = lon (ruta_real ! i),
          zoom = 14, pitch = 50\<rparr>"
  by (simp add: cuadro_de_def Let_def Cons_nth_drop_Suc [symmetric])

text \<open>From \<open>i\<close> on, the loop draws the frames \<open>i, i + 1, \<dots>\<close> up to the last one and ends.\<close>

lemma bucle_desde:
  "i \<le> length ruta_real \<Longrightarrow>
   bucle ruta_real i =
     (map (\<lambda>k. \<lparr>capa_icono = [ruta_real ! k],
                 capa_camino = map (\<lambda>r. (lon r, lat r)) (take (k + 1) ruta_real),
                 latitude = lat (ruta_real ! k), longitude = lon (ruta_real ! k),
                 zoom = 14, pitch = 50\<rparr>) [i..<length ruta_real], None)"
proof (induction ruta_real i rule: bucle.induct)
  case (1 ruta_real i)
  show ?case
  proof (cases "i < length ruta_real")
    case True
    note c = cuadro_de_en_rango [OF True]
    from True have "i + 1 \<le> length ruta_real" by simp
    from "1.IH" [OF True c this] True c show ?thesis
      by (subst bucle.simps) (simp add: upt_conv_Cons)
  next
    case False
    with "1.prems" show ?thesis
      by (subst bucle.simps) simp
  qed
qed

text \<open>
  Claim C3. For a route of \<open>n > 0\<close> points the loop ends without an exception after
  exactly \<open>n\<close> frames. Frame \<open>i\<close>, the \<open>i\<close>-th one drawn, has its marker and its camera
  on point \<open>i\<close> and its path on the points \<open>0, \<dots>, i\<close>; the markers of the frames, in the
  order drawn, are the points of the route, each once.
\<close>

theorem animacion_recorre_la_ruta:
  assumes "ruta_real \<noteq> []"
  shows "\<exists>cs. bucle ruta_real 0 = (cs, None)
           \<and> length cs = length ruta_real
           \<and> (\<forall>i < length ruta_real.
                 capa_icono (cs ! i) = [ruta_real ! i]
               \<and> latitude (cs ! i) = lat (ruta_real ! i)
               \<and> longitude (cs ! i) = lon (ruta_real ! i)
               \<and> capa_camino (cs ! i) = map (\<lambda>r. (lon r, lat r)) (take (i + 1) ruta_real))
           \<and> concat (map capa_icono cs) = ruta_real"
proof -
  let ?cs = "map (\<lambda>k. \<lparr>capa_icono = [ruta_real ! k],
                 capa_camino = map (\<lambda>r. (lon r, lat r)) (take (k + 1) ruta_real),
                 latitude = lat (ruta_real ! k), longitude = lon (ruta_real ! k),
                 zoom = 14, pitch = 50\<rparr>) [0..<length ruta_real]"
  have b: "bucle ruta_real 0 = (?cs, None)"
    by (simp add: bucle_desde)
  have "concat (map capa_icono ?cs) = map (\<lambda>i. ruta_real ! i) [0..<length ruta_real]"
    by (simp add: comp_def concat_map_singleton)
  then have "concat (map capa_icono ?cs) = ruta_real"
    by (simp add: map_nth)
  with b show ?thesis
    by simp
qed

text \<open>The two-point route of the specification's example.\<close>

theorem animacion_recorre_la_ruta_witness:
  "[\<lparr>lat = JNum 20, lon = JNum 10\<rparr>, \<lparr>lat = JNum 21, lon = JNum 11\<rparr>] \<noteq> []
   \<and> bucle [\<lparr>lat = JNum 20, lon = JNum 10\<rparr>, \<lparr>lat = JNum 21, lon = JNum 11\<rparr>] 0
      = ([\<lparr>capa_icono = [\<lparr>lat = JNum 20, lon = JNum 10\<rparr>],
           capa_camino = [(JNum 10, JNum 20)],
           latitude = JNum 20, longitude = JNum 10, zoom = 14, pitch = 50\<rparr>,
          \<lparr>capa_icono = [\<lparr>lat = JNum 21, lon = JNum 11\<rparr>],
           capa_camino = [(JNum 10, JNum 20), (JNum 11, JNum 21)],
           latitude = JNum 21, longitude = JNum 11, zoom = 14, pitch = 50\<rparr>], None)"
  using animacion_recorre_la_ruta [of "[\<lparr>lat = JNum 20, lon = JNum 10\<rparr>, \<lparr>lat = JNum 21, lon = JNum 11\<rparr>]"]
  by (simp add: bucle.simps cuadro_de_def)

end
